theory Spec2Isabelle
  imports Complex_Main "HOL-Library.AList"
begin

section \<open>Shared vocabulary\<close>

text \<open>
  Strings are \<^typ>\<open>string\<close>: one \<^typ>\<open>char\<close> per code unit, restricted to code
  units below 256. A value that JavaScript may leave \<open>undefined\<close> is an \<open>option\<close>.
  A thrown value (a rejected promise, an exception) is a \<open>thrown\<close>; a computation that
  may throw returns \<open>thrown + 'a\<close> with \<open>Inl\<close> for the throw.
\<close>

datatype thrown = ErrorObj string | NonError

definition nl :: string where
  "nl = [CHR 0x0A]"

definition js_whitespace :: "char \<Rightarrow> bool" where
  "js_whitespace c = (c \<in> set [CHR 0x09, CHR 0x0A, CHR 0x0B, CHR 0x0C, CHR 0x0D, CHR 0x20, CHR 0xA0])"

text \<open>\<open>String.prototype.trim\<close>.\<close>

definition trim :: "string \<Rightarrow> string" where
  "trim s = rev (dropWhile js_whitespace (rev (dropWhile js_whitespace s)))"

text \<open>Truthiness of an optional string (\<open>process.env.X\<close>, \<open>env.X\<close>): set and non-empty.\<close>

definition truthy_str :: "string option \<Rightarrow> bool" where
  "truthy_str v = (case v of None \<Rightarrow> False | Some s \<Rightarrow> s \<noteq> [])"


section \<open>TimestampResolver: \<open>should_restore_from_r2\<close> (start-openclaw.sh)\<close>

text \<open>
  A marker file is \<open>None\<close> when it does not exist (\<open>cat\<close> prints nothing) and
  \<open>Some\<close> of its content otherwise. Command substitution \<open>$(...)\<close> removes the trailing
  newlines of what the command printed.
\<close>

definition strip_trailing_newlines :: "string \<Rightarrow> string" where
  "strip_trailing_newlines s = rev (dropWhile (\<lambda>c. c = CHR 0x0A) (rev s))"

definition cat_subst :: "string option \<Rightarrow> string" where
  "cat_subst f = (case f of None \<Rightarrow> [] | Some s \<Rightarrow> strip_trailing_newlines s)"

text \<open>
  \<open>date -d "$T" +%s 2>/dev/null || echo "0"\<close>: the program \<open>date\<close> is a parameter,
  \<open>None\<close> when it rejects the text.
\<close>

definition parse_epoch :: "(string \<Rightarrow> int option) \<Rightarrow> string \<Rightarrow> int" where
  "parse_epoch date_d t = (case date_d t of Some e \<Rightarrow> e | None \<Rightarrow> 0)"

text \<open>The function of start-openclaw.sh; \<open>True\<close> is exit status 0.\<close>

definition should_restore_from_r2 ::
  "(string \<Rightarrow> int option) \<Rightarrow> bool \<Rightarrow> string option \<Rightarrow> string option \<Rightarrow> bool" where
  "should_restore_from_r2 date_d RCLONE_AVAILABLE remote_file local_file =
     (if \<not> RCLONE_AVAILABLE then False
      else let R2_TIME = cat_subst remote_file in
        if R2_TIME = [] then False
        else let LOCAL_TIME = cat_subst local_file in
          if LOCAL_TIME = [] then True
          else let R2_EPOCH = parse_epoch date_d R2_TIME;
                   LOCAL_EPOCH = parse_epoch date_d LOCAL_TIME
               in R2_EPOCH > LOCAL_EPOCH)"

text \<open>
  The earlier version of the script (mounted bucket, no rclone): presence is the
  existence of the file (\<open>[ ! -f ... ]\<close>).
\<close>

definition should_restore_from_r2_mounted ::
  "(string \<Rightarrow> int option) \<Rightarrow> string option \<Rightarrow> string option \<Rightarrow> bool" where
  "should_restore_from_r2_mounted date_d R2_SYNC_FILE LOCAL_SYNC_FILE =
     (case R2_SYNC_FILE of
        None \<Rightarrow> False
      | Some r \<Rightarrow>
         (case LOCAL_SYNC_FILE of
            None \<Rightarrow> True
          | Some l \<Rightarrow>
             (let R2_TIME = strip_trailing_newlines r;
                  LOCAL_TIME = strip_trailing_newlines l;
                  R2_EPOCH = parse_epoch date_d R2_TIME;
                  LOCAL_EPOCH = parse_epoch date_d LOCAL_TIME
              in R2_EPOCH > LOCAL_EPOCH)))"


section \<open>SyncLoop entry point: \<open>syncToR2\<close> (src/gateway/sync.ts)\<close>
















section \<open>ProcessSupervisor: \<open>POST /api/force-restart\<close> (public routes)\<close>

datatype ProcessStatus = Starting | Running | Completed | Failed | Killed











section \<open>JSON values\<close>

text \<open>
  What \<open>JSON.parse\<close> returns. An object is the list of its entries in the order of
  \<open>Object.entries\<close>, with pairwise different keys. \<open>JSON.parse\<close> itself is a
  parameter of the functions that call it: \<open>None\<close> is a \<open>SyntaxError\<close>.
\<close>

datatype json =
    JNull
  | JBool bool
  | JNum rat
  | JStr string
  | JArr "json list"
  | JObj "(string \<times> json) list"


text \<open>ASCII and Latin-1 letters: \<open>toLowerCase\<close> sets bit 5 of an upper-case letter.\<close>

definition char_between :: "nat \<Rightarrow> nat \<Rightarrow> char \<Rightarrow> bool" where
  "char_between lo hi c = (lo \<le> of_char c \<and> (of_char c :: nat) \<le> hi)"

fun set_bit5 :: "char \<Rightarrow> char" where
  "set_bit5 (Char b0 b1 b2 b3 b4 b5 b6 b7) = Char b0 b1 b2 b3 b4 True b6 b7"

definition toLowerCase_char :: "char \<Rightarrow> char" where
  "toLowerCase_char c =
     (if char_between 0x41 0x5A c \<or> (char_between 0xC0 0xDE c \<and> c \<noteq> CHR 0xD7)
      then set_bit5 c else c)"

definition toLowerCase :: "string \<Rightarrow> string" where
  "toLowerCase s = map toLowerCase_char s"



section \<open>AuthReconciler diagnostics: \<open>summarizeAuthState\<close> (src/gateway/auth-state.ts)\<close>

text \<open>
  The two regular expressions. \<open>SIMPLE_PROVIDER_RE\<close> is
  \<^verbatim>\<open>/^[a-z0-9][a-z0-9._-]*$/i\<close>. \<open>MODEL_PROVIDER_RE\<close> is
  \<^verbatim>\<open>/^([a-z0-9][a-z0-9._-]*)\/([^\s]+)$/i\<close>; its first group cannot contain a slash,
  so it is the text before the first slash, and the function returns that group of the
  match, \<open>None\<close> when there is no match.
\<close>

definition startsWith :: "string \<Rightarrow> string \<Rightarrow> bool" where
  "startsWith s p = (take (length p) s = p)"

definition alnum_char :: "char \<Rightarrow> bool" where
  "alnum_char c = (char_between 0x61 0x7A c \<or> char_between 0x41 0x5A c \<or> char_between 0x30 0x39 c)"

definition provider_char :: "char \<Rightarrow> bool" where
  "provider_char c = (alnum_char c \<or> c = CHR ''.'' \<or> c = CHR ''_'' \<or> c = CHR ''-'')"

definition SIMPLE_PROVIDER_RE :: "string \<Rightarrow> bool" where
  "SIMPLE_PROVIDER_RE s = (case s of [] \<Rightarrow> False | c # cs \<Rightarrow> alnum_char c \<and> list_all provider_char cs)"

definition MODEL_PROVIDER_RE :: "string \<Rightarrow> string option" where
  "MODEL_PROVIDER_RE s =
     (let g1 = takeWhile (\<lambda>c. c \<noteq> CHR ''/'') s;
          after = dropWhile (\<lambda>c. c \<noteq> CHR ''/'') s
      in case after of
           [] \<Rightarrow> None
         | _ # g2 \<Rightarrow>
            if SIMPLE_PROVIDER_RE g1 \<and> g2 \<noteq> [] \<and> list_all (\<lambda>c. \<not> js_whitespace c) g2
            then Some g1 else None)"

definition parseJson :: "(string \<Rightarrow> json option) \<Rightarrow> string option \<Rightarrow> json" where
  "parseJson JSON_parse text =
     (case text of
        None \<Rightarrow> JNull
      | Some t \<Rightarrow>
         if t = [] \<or> trim t = [] then JNull
         else (case JSON_parse t of Some v \<Rightarrow> v | None \<Rightarrow> JNull))"

text \<open>
  Reading a property whose name is no built-in member (\<open>agents\<close>, \<open>defaults\<close>,
  \<open>model\<close>, \<open>primary\<close>): only an object has it. \<open>opt_chain\<close> is \<open>?.\<close>.
\<close>

fun get_prop :: "json \<Rightarrow> string \<Rightarrow> json option" where
  "get_prop (JObj kvs) k = map_of kvs k"
| "get_prop _ k = None"

definition opt_chain :: "json option \<Rightarrow> string \<Rightarrow> json option" where
  "opt_chain v k = (case v of None \<Rightarrow> None | Some JNull \<Rightarrow> None | Some x \<Rightarrow> get_prop x k)"

text \<open>Truthiness, and \<open>typeof v === 'object'\<close> (which holds of \<open>null\<close> too).\<close>

fun truthy :: "json \<Rightarrow> bool" where
  "truthy JNull = False"
| "truthy (JBool b) = b"
| "truthy (JNum n) = (n \<noteq> 0)"
| "truthy (JStr s) = (s \<noteq> [])"
| "truthy (JArr _) = True"
| "truthy (JObj _) = True"

fun typeof_object :: "json \<Rightarrow> bool" where
  "typeof_object JNull = True"
| "typeof_object (JArr _) = True"
| "typeof_object (JObj _) = True"
| "typeof_object _ = False"

definition getPrimaryModelFromConfig :: "json \<Rightarrow> string option" where
  "getPrimaryModelFromConfig config =
     (if \<not> truthy config \<or> \<not> typeof_object config then None
      else
        let agents = get_prop config ''agents'';
            defaults = opt_chain agents ''defaults'';
            model = opt_chain defaults ''model''
        in case model of
             Some (JStr s) \<Rightarrow> Some s
           | Some m \<Rightarrow>
              (if truthy m \<and> typeof_object m
               then (case get_prop m ''primary'' of Some (JStr p) \<Rightarrow> Some p | _ \<Rightarrow> None)
               else None)
           | None \<Rightarrow> None)"

definition providerFromModelRef :: "string option \<Rightarrow> string option" where
  "providerFromModelRef modelRef =
     (case modelRef of
        None \<Rightarrow> None
      | Some m \<Rightarrow>
         if m = [] then None
         else
           let trimmed = trim m
           in if trimmed = [] \<or> startsWith trimmed ''http://'' \<or> startsWith trimmed ''https://''
              then None
              else MODEL_PROVIDER_RE trimmed)"


text \<open>
  A JavaScript \<open>Set\<close> of strings is the list of its elements in insertion order.
  \<open>collectProviders\<close> walks the value; the \<open>WeakSet\<close> of visited objects never
  stops the walk of a value that \<open>JSON.parse\<close> built, a tree.
\<close>

definition set_add :: "string list \<Rightarrow> string \<Rightarrow> string list" where
  "set_add xs x = (if x \<in> set xs then xs else xs @ [x])"

definition addProvider :: "string list \<Rightarrow> string option \<Rightarrow> string list" where
  "addProvider out maybeProvider =
     (case maybeProvider of
        None \<Rightarrow> out
      | Some p \<Rightarrow>
         if p = [] then out
         else
           let normalized = toLowerCase (trim p)
           in if normalized = [] \<or> \<not> SIMPLE_PROVIDER_RE normalized then out
              else set_add out normalized)"

fun collectProviders :: "json \<Rightarrow> string list \<Rightarrow> string \<Rightarrow> string list"
  and collectProviders_items :: "json list \<Rightarrow> string list \<Rightarrow> string \<Rightarrow> string list"
  and collectProviders_entries :: "(string \<times> json) list \<Rightarrow> string list \<Rightarrow> string list" where
  "collectProviders (JStr s) out parentKey =
     (let out1 = (if parentKey = ''provider'' \<or> parentKey = ''providername'' \<or> parentKey = ''providerid''
                  then addProvider out (Some s) else out)
      in addProvider out1 (providerFromModelRef (Some s)))"
| "collectProviders JNull out parentKey = out"
| "collectProviders (JBool b) out parentKey = out"
| "collectProviders (JNum n) out parentKey = out"
| "collectProviders (JArr items) out parentKey = collectProviders_items items out parentKey"
| "collectProviders (JObj entries) out parentKey = collectProviders_entries entries out"
| "collectProviders_items [] out parentKey = out"
| "collectProviders_items (item # items) out parentKey =
     collectProviders_items items (collectProviders item out parentKey) parentKey"
| "collectProviders_entries [] out = out"
| "collectProviders_entries ((key, child) # entries) out =
     collectProviders_entries entries
       (collectProviders child (addProvider out (providerFromModelRef (Some key))) (toLowerCase key))"


text \<open>
  \<open>hasProviderToken\<close>: the provider is escaped, so the regular expression
  \<^verbatim>\<open>(^|[^a-z0-9._-])<provider>([^a-z0-9._-]|$)\<close> with flag \<open>i\<close> looks for the provider
  itself, letter case ignored, between two boundaries. \<open>token_scan\<close> tries every
  position from left to right; its flag tells whether a boundary precedes the position.
\<close>

definition ci_eq :: "char \<Rightarrow> char \<Rightarrow> bool" where
  "ci_eq a b = (toLowerCase_char a = toLowerCase_char b)"

definition token_here :: "string \<Rightarrow> string \<Rightarrow> bool" where
  "token_here provider s =
     (length provider \<le> length s \<and> list_all2 ci_eq provider (take (length provider) s)
      \<and> (case drop (length provider) s of [] \<Rightarrow> True | c # _ \<Rightarrow> \<not> provider_char c))"

fun token_scan :: "string \<Rightarrow> bool \<Rightarrow> string \<Rightarrow> bool" where
  "token_scan provider boundary [] = (boundary \<and> token_here provider [])"
| "token_scan provider boundary (c # cs) =
     ((boundary \<and> token_here provider (c # cs)) \<or> token_scan provider (\<not> provider_char c) cs)"

definition hasProviderToken :: "string option \<Rightarrow> string option \<Rightarrow> bool" where
  "hasProviderToken raw provider =
     (case (raw, provider) of
        (Some r, Some p) \<Rightarrow> r \<noteq> [] \<and> p \<noteq> [] \<and> token_scan p True r
      | _ \<Rightarrow> False)"

record AuthStateInput =
  configText :: "string option"
  authProfilesText :: "string option"
  oauthFilePresent :: "bool option"
  agentId :: "string option"

record AuthStateSummary =
  primary_model :: "string option"
  primary_provider :: "string option"
  agent_id :: string
  auth_profiles_present :: bool
  providers_with_profiles :: "string list"
  has_legacy_oauth_import_file :: bool
  mismatch_detected :: bool

definition summarizeAuthState :: "(string \<Rightarrow> json option) \<Rightarrow> AuthStateInput \<Rightarrow> AuthStateSummary" where
  "summarizeAuthState JSON_parse input =
     (let configObj = parseJson JSON_parse (configText input);
          authProfilesObj = parseJson JSON_parse (authProfilesText input);
          primaryModel = getPrimaryModelFromConfig configObj;
          primaryProvider = providerFromModelRef primaryModel;
          authProfilesPresent = (case authProfilesText input of None \<Rightarrow> False | Some t \<Rightarrow> trim t \<noteq> []);
          providers = collectProviders authProfilesObj [] [];
          providers' = (case primaryProvider of
                          Some p \<Rightarrow> if hasProviderToken (authProfilesText input) primaryProvider
                                    then set_add providers p else providers
                        | None \<Rightarrow> providers);
          providersWithProfiles = providers';
          hasPrimaryProviderProfile = (case primaryProvider of
                                         Some p \<Rightarrow> p \<in> set providersWithProfiles
                                       | None \<Rightarrow> True)
      in \<lparr>primary_model = primaryModel,
          primary_provider = primaryProvider,
          agent_id = (case agentId input of Some a \<Rightarrow> if a = [] then ''main'' else a | None \<Rightarrow> ''main''),
          auth_profiles_present = authProfilesPresent,
          providers_with_profiles = providersWithProfiles,
          has_legacy_oauth_import_file = (oauthFilePresent input = Some True),
          mismatch_detected = (primaryProvider \<noteq> None \<and> \<not> hasPrimaryProviderProfile)\<rparr>)"

text \<open>
  \<open>JSON.stringify\<close> of a summary: the seven fields in the order of the object
  literal, strings quoted and escaped. \<open>str_includes\<close> is \<open>String.prototype.includes\<close>.
\<close>

definition dq :: string where "dq = [CHR 0x22]"








fun str_includes :: "string \<Rightarrow> string \<Rightarrow> bool" where
  "str_includes [] needle = (needle = [])"
| "str_includes (c # cs) needle = (startsWith (c # cs) needle \<or> str_includes cs needle)"




section \<open>ConfigPatcher: the config patch script (start-openclaw.sh)\<close>

subsection \<open>Live values\<close>

text \<open>
  The script works on the live value that \<open>JSON.parse\<close> returned and writes
  \<open>JSON.stringify\<close> of it. A live array can carry extra named properties (an assignment
  \<open>a.k = v\<close> succeeds on an array; \<open>JSON.stringify\<close> prints the elements only), and
  \<open>a.entries\<close> of an array is the built-in method, a function that can carry properties
  in turn. So a live value is a JSON value whose arrays have a second, hidden association
  list, plus function objects. Objects are association lists in insertion order.
\<close>

datatype jsval =
    VNull
  | VBool bool
  | VNum rat
  | VStr string
  | VArr "jsval list" "(string \<times> jsval) list"
  | VObj "(string \<times> jsval) list"
  | VFun "(string \<times> jsval) list"

text \<open>
  The value \<open>JSON.parse\<close> returns for a document.
\<close>

primrec from_json :: "json \<Rightarrow> jsval" where
  "from_json JNull = VNull"
| "from_json (JBool b) = VBool b"
| "from_json (JNum n) = VNum n"
| "from_json (JStr s) = VStr s"
| "from_json (JArr xs) = VArr (map from_json xs) []"
| "from_json (JObj kvs) = VObj (map (map_prod id from_json) kvs)"

fun is_fun :: "jsval \<Rightarrow> bool" where
  "is_fun (VFun _) = True"
| "is_fun _ = False"

text \<open>
  What \<open>JSON.stringify\<close> writes and the next \<open>JSON.parse\<close> reads back: members whose
  value is a function are left out of objects, the named properties of arrays are dropped.
\<close>

primrec to_json :: "jsval \<Rightarrow> json" where
  "to_json VNull = JNull"
| "to_json (VBool b) = JBool b"
| "to_json (VNum n) = JNum n"
| "to_json (VStr s) = JStr s"
| "to_json (VArr xs ps) = JArr (map to_json xs)"
| "to_json (VObj kvs) =
     JObj (map snd (filter (\<lambda>(e, _). \<not> is_fun (snd e)) (zip kvs (map (map_prod id to_json) kvs))))"
| "to_json (VFun ps) = JNull"

text \<open>
  Reading or writing a property of \<open>null\<close> or \<open>undefined\<close>, and calling something
  that is no function, throw a \<open>TypeError\<close>; the script has no handler around the patch.
\<close>

definition TypeError :: thrown where
  "TypeError = ErrorObj ''TypeError''"

fun truthyV :: "jsval \<Rightarrow> bool" where
  "truthyV VNull = False"
| "truthyV (VBool b) = b"
| "truthyV (VNum n) = (n \<noteq> 0)"
| "truthyV (VStr s) = (s \<noteq> [])"
| "truthyV _ = True"

text \<open>
  \<open>get r k\<close> is \<open>r.k\<close>, with \<open>None\<close> for \<open>undefined\<close>. The only inherited
  property among the names the script reads on a receiver is \<open>entries\<close> of arrays.
  \<open>put r k v\<close> is the value \<open>r\<close> after \<open>r.k = v\<close>; on a primitive the assignment
  has no effect (the script is not in strict mode).
\<close>

fun get :: "jsval \<Rightarrow> string \<Rightarrow> jsval option" where
  "get (VObj kvs) k = map_of kvs k"
| "get (VArr xs ps) k =
     (case map_of ps k of Some v \<Rightarrow> Some v
      | None \<Rightarrow> if k = ''entries'' then Some (VFun []) else None)"
| "get (VFun ps) k = map_of ps k"
| "get _ k = None"

fun put :: "jsval \<Rightarrow> string \<Rightarrow> jsval \<Rightarrow> jsval" where
  "put (VObj kvs) k v = VObj (AList.update k v kvs)"
| "put (VArr xs ps) k v = VArr xs (AList.update k v ps)"
| "put (VFun ps) k v = VFun (AList.update k v ps)"
| "put r k v = r"

subsection \<open>Statements\<close>

text \<open>
  Every statement of the script is one of three operations on a receiver reached by a
  path from \<open>config\<close>: \<open>r.k = r.k || d\<close>, \<open>r.k = v\<close>, and
  \<open>if (!r.includes(x)) r.push(x)\<close>. \<open>includes\<close> exists on arrays and on strings,
  \<open>push\<close> on arrays only.
\<close>

datatype op = OrDefault string jsval | Assign string jsval | PushUnique string

fun exec_op :: "op \<Rightarrow> jsval \<Rightarrow> thrown + jsval" where
  "exec_op (OrDefault k d) r =
     Inr (put r k (case get r k of Some x \<Rightarrow> if truthyV x then x else d | None \<Rightarrow> d))"
| "exec_op (Assign k v) r = Inr (put r k v)"
| "exec_op (PushUnique x) r =
     (case r of
        VArr xs ps \<Rightarrow>
          if map_of ps ''includes'' \<noteq> None then Inl TypeError
          else if VStr x \<in> set xs then Inr r
          else if map_of ps ''push'' \<noteq> None then Inl TypeError
          else Inr (VArr (xs @ [VStr x]) ps)
      | VStr s \<Rightarrow> if str_includes s x then Inr r else Inl TypeError
      | _ \<Rightarrow> Inl TypeError)"

text \<open>
  \<open>modify path g r\<close> evaluates the receiver \<open>r.path\<close>, applies the operation to it
  and returns \<open>r\<close> with the receiver's new state in place. Values restored from JSON
  form a tree, so rebuilding along the path is what the in-place update does.
\<close>

fun modify :: "string list \<Rightarrow> (jsval \<Rightarrow> thrown + jsval) \<Rightarrow> jsval \<Rightarrow> thrown + jsval" where
  "modify [] g r = (if r = VNull then Inl TypeError else g r)"
| "modify (k # ks) g r =
     (if r = VNull then Inl TypeError
      else case get r k of
             None \<Rightarrow> Inl TypeError
           | Some c \<Rightarrow> (case modify ks g c of Inl e \<Rightarrow> Inl e | Inr c' \<Rightarrow> Inr (put r k c')))"

type_synonym stmt = "string list \<times> op"

definition exec_stmt :: "stmt \<Rightarrow> jsval \<Rightarrow> thrown + jsval" where
  "exec_stmt st r = modify (fst st) (exec_op (snd st)) r"

fun run :: "stmt list \<Rightarrow> jsval \<Rightarrow> thrown + jsval" where
  "run [] r = Inr r"
| "run (st # sts) r = (case exec_stmt st r of Inl e \<Rightarrow> Inl e | Inr r' \<Rightarrow> run sts r')"

subsection \<open>The script\<close>

text \<open>
\<open>String.prototype.split\<close> with a one-character separator.
\<close>

fun split_on :: "char \<Rightarrow> string \<Rightarrow> string list" where
  "split_on sep [] = [[]]"
| "split_on sep (c # cs) =
     (if c = sep then [] # split_on sep cs
      else (case split_on sep cs of [] \<Rightarrow> [[c]] | w # ws \<Rightarrow> (c # w) # ws))"

text \<open>
\<open>process.env.X || d\<close>.
\<close>

definition or_else :: "string option \<Rightarrow> string \<Rightarrow> string" where
  "or_else v d = (case v of None \<Rightarrow> d | Some s \<Rightarrow> if s = [] then d else s)"

definition extensions_path :: string where
  "extensions_path = ''/root/.openclaw/extensions''"

text \<open>
  The statements of the script, in source order. \<open>env\<close> is \<open>process.env\<close>; the
  \<open>the\<close> of a variable is read under the truthiness test that guards it in the source.
\<close>

definition base_statements :: "stmt list" where
  "base_statements =
     [([], OrDefault ''gateway'' (VObj [])),
      ([], OrDefault ''channels'' (VObj [])),
      ([], OrDefault ''plugins'' (VObj [])),
      ([''plugins''], OrDefault ''entries'' (VObj [])),
      ([''plugins''], OrDefault ''load'' (VObj [])),
      ([''plugins'', ''load''], OrDefault ''paths'' (VArr [] [])),
      ([''plugins'', ''load'', ''paths''], PushUnique extensions_path),
      ([''plugins'', ''entries''], OrDefault ''trace-model'' (VObj [])),
      ([''plugins'', ''entries'', ''trace-model''], Assign ''enabled'' (VBool True)),
      ([''gateway''], Assign ''port'' (VNum 18789)),
      ([''gateway''], Assign ''mode'' (VStr ''local'')),
      ([''gateway''], Assign ''trustedProxies'' (VArr [VStr ''10.1.0.0''] []))]"

definition token_statements :: "(string \<Rightarrow> string option) \<Rightarrow> stmt list" where
  "token_statements env =
     (if truthy_str (env ''OPENCLAW_GATEWAY_TOKEN'')
      then [([''gateway''], OrDefault ''auth'' (VObj [])),
            ([''gateway'', ''auth''], Assign ''token'' (VStr (the (env ''OPENCLAW_GATEWAY_TOKEN''))))]
      else [])"

definition dev_statements :: "(string \<Rightarrow> string option) \<Rightarrow> stmt list" where
  "dev_statements env =
     (if env ''OPENCLAW_DEV_MODE'' = Some ''true''
      then [([''gateway''], OrDefault ''controlUi'' (VObj [])),
            ([''gateway'', ''controlUi''], Assign ''allowInsecureAuth'' (VBool True))]
      else [])"

definition gateway_base_url :: "(string \<Rightarrow> string option) \<Rightarrow> string \<Rightarrow> string option" where
  "gateway_base_url env gwProvider =
     (if truthy_str (env ''CF_AI_GATEWAY_ACCOUNT_ID'') \<and> truthy_str (env ''CF_AI_GATEWAY_GATEWAY_ID'')
      then Some (''https://gateway.ai.cloudflare.com/v1/'' @ the (env ''CF_AI_GATEWAY_ACCOUNT_ID'')
                 @ ''/'' @ the (env ''CF_AI_GATEWAY_GATEWAY_ID'') @ ''/'' @ gwProvider
                 @ (if gwProvider = ''workers-ai'' then ''/v1'' else []))
      else if gwProvider = ''workers-ai'' \<and> truthy_str (env ''CF_ACCOUNT_ID'')
      then Some (''https://api.cloudflare.com/client/v4/accounts/'' @ the (env ''CF_ACCOUNT_ID'') @ ''/ai/v1'')
      else None)"

definition model_statements :: "(string \<Rightarrow> string option) \<Rightarrow> stmt list" where
  "model_statements env =
     (if truthy_str (env ''CF_AI_GATEWAY_MODEL'')
      then
        let raw = the (env ''CF_AI_GATEWAY_MODEL'');
            has_slash = (CHR ''/'' \<in> set raw);
            gwProvider = (if has_slash then takeWhile (\<lambda>c. c \<noteq> CHR ''/'') raw else []);
            modelId = (if has_slash then tl (dropWhile (\<lambda>c. c \<noteq> CHR ''/'') raw) else raw);
            baseUrl = gateway_base_url env gwProvider
        in if baseUrl \<noteq> None \<and> truthy_str (env ''CLOUDFLARE_AI_GATEWAY_API_KEY'')
           then
             let api = (if gwProvider = ''anthropic'' then ''anthropic-messages'' else ''openai-completions'');
                 providerName = ''cf-ai-gw-'' @ gwProvider
             in [([], OrDefault ''models'' (VObj [])),
                 ([''models''], OrDefault ''providers'' (VObj [])),
                 ([''models'', ''providers''], Assign providerName
                    (VObj [(''baseUrl'', VStr (the baseUrl)),
                           (''apiKey'', VStr (the (env ''CLOUDFLARE_AI_GATEWAY_API_KEY''))),
                           (''api'', VStr api),
                           (''models'', VArr [VObj [(''id'', VStr modelId), (''name'', VStr modelId),
                                                    (''contextWindow'', VNum 131072),
                                                    (''maxTokens'', VNum 8192)]] [])])),
                 ([], OrDefault ''agents'' (VObj [])),
                 ([''agents''], OrDefault ''defaults'' (VObj [])),
                 ([''agents'', ''defaults''], Assign ''model''
                    (VObj [(''primary'', VStr (providerName @ ''/'' @ modelId))]))]
           else []
      else [])"

definition telegram_statements :: "(string \<Rightarrow> string option) \<Rightarrow> stmt list" where
  "telegram_statements env =
     (if truthy_str (env ''TELEGRAM_BOT_TOKEN'')
      then
        let dmPolicy = or_else (env ''TELEGRAM_DM_POLICY'') ''pairing''
        in [([''channels''], Assign ''telegram''
               (VObj [(''botToken'', VStr (the (env ''TELEGRAM_BOT_TOKEN''))),
                      (''enabled'', VBool True),
                      (''dmPolicy'', VStr dmPolicy)]))]
           @ (if truthy_str (env ''TELEGRAM_DM_ALLOW_FROM'')
              then [([''channels'', ''telegram''], Assign ''allowFrom''
                       (VArr (map VStr (split_on (CHR '','') (the (env ''TELEGRAM_DM_ALLOW_FROM'')))) []))]
              else if dmPolicy = ''open''
              then [([''channels'', ''telegram''], Assign ''allowFrom'' (VArr [VStr ''*''] []))]
              else [])
      else [])"

definition discord_statements :: "(string \<Rightarrow> string option) \<Rightarrow> stmt list" where
  "discord_statements env =
     (if truthy_str (env ''DISCORD_BOT_TOKEN'')
      then
        let dmPolicy = or_else (env ''DISCORD_DM_POLICY'') ''pairing'';
            dm = VObj ([(''policy'', VStr dmPolicy)]
                       @ (if dmPolicy = ''open'' then [(''allowFrom'', VArr [VStr ''*''] [])] else []))
        in [([''channels''], Assign ''discord''
               (VObj [(''token'', VStr (the (env ''DISCORD_BOT_TOKEN''))),
                      (''enabled'', VBool True),
                      (''dm'', dm)]))]
      else [])"

definition slack_statements :: "(string \<Rightarrow> string option) \<Rightarrow> stmt list" where
  "slack_statements env =
     (if truthy_str (env ''SLACK_BOT_TOKEN'') \<and> truthy_str (env ''SLACK_APP_TOKEN'')
      then [([''channels''], Assign ''slack''
               (VObj [(''botToken'', VStr (the (env ''SLACK_BOT_TOKEN''))),
                      (''appToken'', VStr (the (env ''SLACK_APP_TOKEN''))),
                      (''enabled'', VBool True)]))]
      else [])"

definition patch_statements :: "(string \<Rightarrow> string option) \<Rightarrow> stmt list" where
  "patch_statements env =
     base_statements @ token_statements env @ dev_statements env @ model_statements env
       @ telegram_statements env @ discord_statements env @ slack_statements env"



text \<open>
  The whole script. The argument is the parsed config file, \<open>None\<close> when reading or parsing
  it failed (the script then starts from \<open>{}\<close>); the result is the document written back,
  or the exception that ended the script before it wrote anything.
\<close>

definition patch_document :: "stmt list \<Rightarrow> json option \<Rightarrow> thrown + json" where
  "patch_document sts existing =
     (let config = (case existing of None \<Rightarrow> VObj [] | Some parsed \<Rightarrow> from_json parsed)
      in case run sts config of
           Inl e \<Rightarrow> Inl e
         | Inr config' \<Rightarrow> Inr (to_json config'))"

definition patch_config :: "(string \<Rightarrow> string option) \<Rightarrow> json option \<Rightarrow> thrown + json" where
  "patch_config env existing = patch_document (patch_statements env) existing"


subsection \<open>Vocabulary of the idempotence proof\<close>

text \<open>
  The members of an object that \<open>JSON.parse\<close> returns have pairwise different names.
\<close>

primrec wf_json :: "json \<Rightarrow> bool" where
  "wf_json JNull = True"
| "wf_json (JBool b) = True"
| "wf_json (JNum n) = True"
| "wf_json (JStr s) = True"
| "wf_json (JArr xs) = list_all id (map wf_json xs)"
| "wf_json (JObj kvs) = (distinct (map fst kvs) \<and> list_all snd (map (map_prod id wf_json) kvs))"

fun kind :: "jsval \<Rightarrow> nat" where
  "kind VNull = 0"
| "kind (VBool _) = 1"
| "kind (VNum _) = 2"
| "kind (VStr _) = 3"
| "kind (VArr _ _) = 4"
| "kind (VObj _) = 5"
| "kind (VFun _) = 6"

definition nonfun :: "(string \<times> jsval) list \<Rightarrow> bool" where
  "nonfun al = (\<forall>e \<in> set al. \<not> is_fun (snd e))"


text \<open>
  Seen from an object receiver, each statement rewrites the member \<open>key st\<close> only:
  \<open>kstep st c\<close> is the new member value from the old one, and \<open>kres sts k c\<close> what
  a statement list makes of member \<open>k\<close>.
\<close>

fun key :: "stmt \<Rightarrow> string" where
  "key ([], OrDefault k d) = k"
| "key ([], Assign k v) = k"
| "key ([], PushUnique x) = []"
| "key (k # ks, opn) = k"

fun kstep :: "stmt \<Rightarrow> jsval option \<Rightarrow> thrown + jsval" where
  "kstep ([], OrDefault k d) c = Inr (case c of Some x \<Rightarrow> if truthyV x then x else d | None \<Rightarrow> d)"
| "kstep ([], Assign k v) c = Inr v"
| "kstep ([], PushUnique x) c = Inl TypeError"
| "kstep (k # ks, opn) None = Inl TypeError"
| "kstep (k # ks, opn) (Some c) = exec_stmt (ks, opn) c"

fun kres :: "stmt list \<Rightarrow> string \<Rightarrow> jsval option \<Rightarrow> thrown + jsval option" where
  "kres [] k c = Inr c"
| "kres (st # sts) k c =
     (if key st = k
      then (case kstep st c of Inl e \<Rightarrow> Inl e | Inr c' \<Rightarrow> kres sts k (Some c'))
      else kres sts k c)"

definition top_nonfun :: "stmt \<Rightarrow> bool" where
  "top_nonfun st = (case st of ([], OrDefault k d) \<Rightarrow> \<not> is_fun d
                              | ([], Assign k v) \<Rightarrow> \<not> is_fun v
                              | _ \<Rightarrow> True)"

text \<open>
  \<open>sub k sts\<close> are the statements below member \<open>k\<close>, relative to it. A statement
  list is well formed to depth \<open>n\<close> (\<open>wfd\<close>) if at every member the first statement
  touching it is followed by deeper statements only, literals are plain JSON, defaults
  are truthy, and a push is the only statement of its receiver.
\<close>

definition strip :: "stmt \<Rightarrow> stmt" where
  "strip st = (tl (fst st), snd st)"

definition sub :: "string \<Rightarrow> stmt list \<Rightarrow> stmt list" where
  "sub k sts = map strip (filter (\<lambda>st. fst st \<noteq> [] \<and> key st = k) sts)"

definition key_pattern :: "string \<Rightarrow> stmt list \<Rightarrow> bool" where
  "key_pattern k sts =
     (case filter (\<lambda>st. key st = k) sts of [] \<Rightarrow> True | st # rest \<Rightarrow> \<forall>s \<in> set rest. fst s \<noteq> [])"

definition lit_ok :: "jsval \<Rightarrow> bool" where
  "lit_ok v = (from_json (to_json v) = v \<and> wf_json (to_json v))"

fun top_ok :: "stmt \<Rightarrow> bool" where
  "top_ok ([], OrDefault k d) = (lit_ok d \<and> truthyV d)"
| "top_ok ([], Assign k v) = lit_ok v"
| "top_ok ([], PushUnique x) = False"
| "top_ok (k # ks, opn) = True"

text \<open>
  A run is stable when running again on what was written and read back succeeds and
  writes the same document.
\<close>

definition rerun_stable :: "(jsval \<Rightarrow> thrown + jsval) \<Rightarrow> bool" where
  "rerun_stable G = (\<forall>j r. wf_json j \<longrightarrow> G (from_json j) = Inr r \<longrightarrow>
                 (\<exists>r'. G (from_json (to_json r)) = Inr r' \<and> to_json r' = to_json r))"


text \<open>
\<open>json_at d path\<close> is the member of document \<open>d\<close> at \<open>path\<close>.
\<close>

fun json_at :: "json \<Rightarrow> string list \<Rightarrow> json option" where
  "json_at j [] = Some j"
| "json_at j (k # ks) = (case get_prop j k of None \<Rightarrow> None | Some c \<Rightarrow> json_at c ks)"

section \<open>AuthReconciler: legacy auth-store migration (start-openclaw.sh)\<close>












fun show_nat :: "nat \<Rightarrow> string" where
  "show_nat n = (if n < 10 then [char_of (48 + n)] else show_nat (n div 10) @ [char_of (48 + n mod 10)])"

fun entries :: "json \<Rightarrow> (string \<times> json) list" where
  "entries (JObj kvs) = kvs"
| "entries (JArr xs) = zip (map show_nat [0..<length xs]) xs"
| "entries _ = []"







section \<open>Concrete inputs used below\<close>










text \<open>What \<open>date -d\<close> answers on two ISO-8601 timestamps, and on nothing else.\<close>

definition mock_date_d :: "string \<Rightarrow> int option" where
  "mock_date_d t = (if t = ''2026-02-13T10:00:00+00:00'' then Some 1770976800
                    else if t = ''2026-02-13T09:00:00+00:00'' then Some 1770973200
                    else None)"


text \<open>
  The texts of auth-state.test.ts with the values \<open>JSON.parse\<close> gives them; the mock
  parser knows these texts and rejects every other one.
\<close>

definition testConfigText :: string where
  "testConfigText = ''{'' @ dq @ ''agents'' @ dq @ '':{'' @ dq @ ''defaults'' @ dq @ '':{'' @ dq @ ''model'' @ dq
     @ '':{'' @ dq @ ''primary'' @ dq @ '':'' @ dq @ ''openai-codex/gpt-5.3-codex'' @ dq @ ''}}}}''"

definition testConfigObj :: json where
  "testConfigObj = JObj [(''agents'', JObj [(''defaults'', JObj [(''model'',
                     JObj [(''primary'', JStr ''openai-codex/gpt-5.3-codex'')])])])]"

definition profilesText :: "string \<Rightarrow> string \<Rightarrow> string \<Rightarrow> string" where
  "profilesText provider field val =
     ''{'' @ dq @ ''profiles'' @ dq @ '':[{'' @ dq @ ''provider'' @ dq @ '':'' @ dq @ provider @ dq @ '',''
       @ dq @ field @ dq @ '':'' @ dq @ val @ dq @ ''}]}''"

definition profilesObj :: "string \<Rightarrow> string \<Rightarrow> string \<Rightarrow> json" where
  "profilesObj provider field val =
     JObj [(''profiles'', JArr [JObj [(''provider'', JStr provider), (field, JStr val)]])]"

definition truncatedProfilesText :: string where
  "truncatedProfilesText = ''{'' @ dq @ ''profiles'' @ dq @ '':[{'' @ dq @ ''provider'' @ dq @ '':'' @ dq
     @ ''openai-codex'' @ dq"

definition mock_JSON_parse :: "string \<Rightarrow> json option" where
  "mock_JSON_parse t =
     (if t = testConfigText then Some testConfigObj
      else if t = profilesText ''anthropic'' ''name'' ''default''
        then Some (profilesObj ''anthropic'' ''name'' ''default'')
      else if t = profilesText ''openai-codex'' ''name'' ''oauth''
        then Some (profilesObj ''openai-codex'' ''name'' ''oauth'')
      else if t = profilesText ''openai-codex'' ''apiKey'' ''sk-test-super-secret''
        then Some (profilesObj ''openai-codex'' ''apiKey'' ''sk-test-super-secret'')
      else if t = profilesText ''openai-codex'' ''apiKey'' ''other''
        then Some (profilesObj ''openai-codex'' ''apiKey'' ''other'')
      else if t = profilesText ''anthropic'' ''apiKey'' ''main''
        then Some (profilesObj ''anthropic'' ''apiKey'' ''main'')
      else None)"

definition testInput :: "string \<Rightarrow> AuthStateInput" where
  "testInput auth = \<lparr>configText = Some testConfigText, authProfilesText = Some auth,
                      oauthFilePresent = None, agentId = None\<rparr>"

text \<open>
  An environment with all three channels configured and a hand-edited document with a stale Telegram member.
\<close>

definition patchEnv :: "string \<Rightarrow> string option" where
  "patchEnv = map_of
     [(''OPENCLAW_GATEWAY_TOKEN'', ''gw-token''),
      (''TELEGRAM_BOT_TOKEN'', ''tg-token''),
      (''TELEGRAM_DM_POLICY'', ''open''),
      (''DISCORD_BOT_TOKEN'', ''dc-token''),
      (''SLACK_BOT_TOKEN'', ''xoxb-1''),
      (''SLACK_APP_TOKEN'', ''xapp-1'')]"

definition staleConfig :: json where
  "staleConfig = JObj
     [(''channels'', JObj
        [(''telegram'', JObj [(''botToken'', JStr ''old''), (''legacyField'', JBool True)]),
         (''matrix'', JObj [(''enabled'', JBool False)])]),
      (''note'', JStr ''hand-edited'')]"

definition patchedStaleConfig :: json where
  "patchedStaleConfig = JObj
     [(''channels'', JObj
        [(''telegram'', JObj
           [(''botToken'', JStr ''tg-token''), (''enabled'', JBool True),
            (''dmPolicy'', JStr ''open''), (''allowFrom'', JArr [JStr ''*''])]),
         (''matrix'', JObj [(''enabled'', JBool False)]),
         (''discord'', JObj
           [(''token'', JStr ''dc-token''), (''enabled'', JBool True),
            (''dm'', JObj [(''policy'', JStr ''pairing'')])]),
         (''slack'', JObj
           [(''botToken'', JStr ''xoxb-1''), (''appToken'', JStr ''xapp-1''),
            (''enabled'', JBool True)])]),
      (''note'', JStr ''hand-edited''),
      (''gateway'', JObj
        [(''port'', JNum 18789), (''mode'', JStr ''local''),
         (''trustedProxies'', JArr [JStr ''10.1.0.0'']),
         (''auth'', JObj [(''token'', JStr ''gw-token'')])]),
      (''plugins'', JObj
        [(''entries'', JObj [(''trace-model'', JObj [(''enabled'', JBool True)])]),
         (''load'', JObj [(''paths'', JArr [JStr ''/root/.openclaw/extensions''])])])]"









section \<open>Theorems\<close>

text \<open>
  C1. For every pair of marker files the restore decision is true exactly when the
  remote marker is present and either the local marker is absent or the epoch parsed
  from the remote one is strictly greater than the epoch parsed from the local one,
  an unparsable timestamp counting as epoch 0 on either side. In the rclone version a
  marker is present when reading it gives a non-empty text and the remote marker can
  only be read when rclone is configured; in the mounted version a marker is present
  when its file exists.
\<close>

theorem should_restore_iff:
  "should_restore_from_r2 date_d avail remote loc =
     (avail \<and> cat_subst remote \<noteq> [] \<and>
       (cat_subst loc = [] \<or>
        parse_epoch date_d (cat_subst remote) > parse_epoch date_d (cat_subst loc)))
   \<and> should_restore_from_r2_mounted date_d remote loc =
     (remote \<noteq> None \<and>
       (loc = None \<or>
        parse_epoch date_d (strip_trailing_newlines (the remote))
          > parse_epoch date_d (strip_trailing_newlines (the loc))))
   \<and> (date_d t = None \<longrightarrow> parse_epoch date_d t = 0)"
  by (auto simp: should_restore_from_r2_def should_restore_from_r2_mounted_def Let_def
        parse_epoch_def split: option.splits)

theorem should_restore_iff_witness:
  "should_restore_from_r2 mock_date_d True
     (Some (''2026-02-13T10:00:00+00:00'' @ nl)) (Some (''2026-02-13T09:00:00+00:00'' @ nl))
   \<and> \<not> should_restore_from_r2 mock_date_d True
     (Some (''2026-02-13T09:00:00+00:00'' @ nl)) (Some (''2026-02-13T10:00:00+00:00'' @ nl))
   \<and> should_restore_from_r2 mock_date_d True (Some (''2026-02-13T09:00:00+00:00'' @ nl)) None
   \<and> \<not> should_restore_from_r2 mock_date_d True None (Some (''2026-02-13T09:00:00+00:00'' @ nl))
   \<and> should_restore_from_r2 mock_date_d True
     (Some (''2026-02-13T09:00:00+00:00'' @ nl)) (Some ''not a date'')
   \<and> \<not> should_restore_from_r2_mounted mock_date_d
     (Some ''not a date'') (Some (''2026-02-13T09:00:00+00:00'' @ nl))
   \<and> parse_epoch mock_date_d ''not a date'' = 0"
proof -
  have s: "strip_trailing_newlines (''2026-02-13T10:00:00+00:00'' @ nl) = ''2026-02-13T10:00:00+00:00''"
    "strip_trailing_newlines (''2026-02-13T09:00:00+00:00'' @ nl) = ''2026-02-13T09:00:00+00:00''"
    "strip_trailing_newlines ''not a date'' = ''not a date''"
    by (simp_all add: strip_trailing_newlines_def nl_def)
  have d: "mock_date_d ''not a date'' = None"
    by (simp add: mock_date_d_def)
  have e: "parse_epoch mock_date_d ''2026-02-13T10:00:00+00:00'' = 1770976800"
    "parse_epoch mock_date_d ''2026-02-13T09:00:00+00:00'' = 1770973200"
    by (simp_all add: parse_epoch_def mock_date_d_def)
  show ?thesis
    using should_restore_iff [of mock_date_d True
        "Some (''2026-02-13T10:00:00+00:00'' @ nl)" "Some (''2026-02-13T09:00:00+00:00'' @ nl)"
        "''not a date''"]
      should_restore_iff [of mock_date_d True
        "Some (''2026-02-13T09:00:00+00:00'' @ nl)" "Some (''2026-02-13T10:00:00+00:00'' @ nl)"
        "''not a date''"]
      should_restore_iff [of mock_date_d True "Some (''2026-02-13T09:00:00+00:00'' @ nl)" None
        "''not a date''"]
      should_restore_iff [of mock_date_d True None "Some (''2026-02-13T09:00:00+00:00'' @ nl)"
        "''not a date''"]
      should_restore_iff [of mock_date_d True
        "Some (''2026-02-13T09:00:00+00:00'' @ nl)" "Some ''not a date''" "''not a date''"]
      should_restore_iff [of mock_date_d True
        "Some ''not a date''" "Some (''2026-02-13T09:00:00+00:00'' @ nl)" "''not a date''"]
      s d e
    by (simp add: cat_subst_def)
qed













subsection \<open>The auth-state summary\<close>

lemma dropWhile_keeps_witness:
  "\<exists>c \<in> set s. \<not> P c \<Longrightarrow> \<exists>c \<in> set (dropWhile P s). \<not> P c"
proof -
  assume "\<exists>c \<in> set s. \<not> P c"
  then have ne: "dropWhile P s \<noteq> []" by (simp add: dropWhile_eq_Nil_conv)
  then have "\<not> P (hd (dropWhile P s))" by (rule hd_dropWhile)
  with ne show ?thesis using hd_in_set by blast
qed

lemma trim_nonempty: "\<exists>c \<in> set s. \<not> js_whitespace c \<Longrightarrow> trim s \<noteq> []"
proof -
  assume "\<exists>c \<in> set s. \<not> js_whitespace c"
  then have "\<exists>c \<in> set (rev (dropWhile js_whitespace s)). \<not> js_whitespace c"
    using dropWhile_keeps_witness [of s js_whitespace] by simp
  then have "dropWhile js_whitespace (rev (dropWhile js_whitespace s)) \<noteq> []"
    by (simp add: dropWhile_eq_Nil_conv)
  then show ?thesis by (simp add: trim_def)
qed

lemma set_trim: "set (trim s) \<subseteq> set s"
proof -
  have "set (trim s) \<subseteq> set (rev (dropWhile js_whitespace s))"
    unfolding trim_def using set_dropWhileD by fastforce
  also have "\<dots> \<subseteq> set s" using set_dropWhileD by fastforce
  finally show ?thesis .
qed

lemma alnum_not_whitespace: "alnum_char c \<Longrightarrow> \<not> js_whitespace c"
  by (auto simp: alnum_char_def js_whitespace_def char_between_def)

lemma MODEL_PROVIDER_RE_Some:
  "MODEL_PROVIDER_RE s = Some p \<Longrightarrow>
     \<exists>rest. s = p @ CHR ''/'' # rest \<and> CHR ''/'' \<notin> set p \<and> SIMPLE_PROVIDER_RE p
            \<and> rest \<noteq> [] \<and> list_all (\<lambda>c. \<not> js_whitespace c) rest"
proof -
  assume a: "MODEL_PROVIDER_RE s = Some p"
  let ?g = "takeWhile (\<lambda>c. c \<noteq> CHR ''/'') s" and ?d = "dropWhile (\<lambda>c. c \<noteq> CHR ''/'') s"
  from a obtain c g2 where d: "?d = c # g2" and p: "p = ?g" and r: "SIMPLE_PROVIDER_RE ?g"
      "g2 \<noteq> []" "list_all (\<lambda>c. \<not> js_whitespace c) g2"
    by (auto simp: MODEL_PROVIDER_RE_def Let_def split: list.splits if_splits)
  have "c = CHR ''/''"
    using d hd_dropWhile [of "\<lambda>c. c \<noteq> CHR ''/''" s] by force
  moreover have "s = ?g @ ?d" by simp
  moreover have "CHR ''/'' \<notin> set ?g" by (auto dest: set_takeWhileD)
  ultimately show ?thesis using d p r by metis
qed

lemma MODEL_PROVIDER_RE_iff:
  "MODEL_PROVIDER_RE s = Some p \<longleftrightarrow>
     (\<exists>rest. s = p @ CHR ''/'' # rest \<and> SIMPLE_PROVIDER_RE p
            \<and> rest \<noteq> [] \<and> list_all (\<lambda>c. \<not> js_whitespace c) rest)"
proof
  assume "MODEL_PROVIDER_RE s = Some p"
  from MODEL_PROVIDER_RE_Some [OF this] show "\<exists>rest. s = p @ CHR ''/'' # rest \<and> SIMPLE_PROVIDER_RE p
            \<and> rest \<noteq> [] \<and> list_all (\<lambda>c. \<not> js_whitespace c) rest" by blast
next
  assume "\<exists>rest. s = p @ CHR ''/'' # rest \<and> SIMPLE_PROVIDER_RE p
            \<and> rest \<noteq> [] \<and> list_all (\<lambda>c. \<not> js_whitespace c) rest"
  then obtain rest where s: "s = p @ CHR ''/'' # rest" and r: "SIMPLE_PROVIDER_RE p"
     "rest \<noteq> []" "list_all (\<lambda>c. \<not> js_whitespace c) rest" by blast
  have np: "\<forall>c \<in> set p. c \<noteq> CHR ''/''"
    using r(1) by (cases p) (auto simp: SIMPLE_PROVIDER_RE_def list_all_iff provider_char_def alnum_char_def char_between_def)
  have "takeWhile (\<lambda>c. c \<noteq> CHR ''/'') s = p" "dropWhile (\<lambda>c. c \<noteq> CHR ''/'') s = CHR ''/'' # rest"
    using s np by (simp_all add: takeWhile_append2 dropWhile_append2)
  then show "MODEL_PROVIDER_RE s = Some p"
    using r by (simp add: MODEL_PROVIDER_RE_def)
qed

lemma providerFromModelRef_Some:
  assumes "providerFromModelRef (Some m) = Some p"
  shows "\<exists>rest. trim m = p @ CHR ''/'' # rest \<and> CHR ''/'' \<notin> set p \<and> SIMPLE_PROVIDER_RE p
     \<and> \<not> startsWith (trim m) ''http://'' \<and> \<not> startsWith (trim m) ''https://''"
  using assms MODEL_PROVIDER_RE_Some [of "trim m" p]
  by (auto simp: providerFromModelRef_def Let_def split: if_splits)

lemma providerFromModelRef_no_slash:
  "CHR ''/'' \<notin> set m \<Longrightarrow> providerFromModelRef (Some m) = None"
proof (rule ccontr)
  assume n: "CHR ''/'' \<notin> set m" and "providerFromModelRef (Some m) \<noteq> None"
  then obtain p where "providerFromModelRef (Some m) = Some p" by auto
  from providerFromModelRef_Some [OF this] obtain rest where "trim m = p @ CHR ''/'' # rest" by blast
  then have "CHR ''/'' \<in> set (trim m)" by simp
  then have "CHR ''/'' \<in> set m"
    using set_trim by blast
  with n show False by simp
qed

lemma providerFromModelRef_url:
  "startsWith (trim m) ''http://'' \<or> startsWith (trim m) ''https://'' \<Longrightarrow> providerFromModelRef (Some m) = None"
  by (simp add: providerFromModelRef_def Let_def)

lemma token_here_self:
  "(post = [] \<or> \<not> provider_char (hd post)) \<Longrightarrow> token_here p (p @ post)"
  by (cases post) (auto simp: token_here_def ci_eq_def list_all2_same)

lemma token_scan_found:
  "token_here p s \<Longrightarrow> (if pre = [] then b else \<not> provider_char (last pre)) \<Longrightarrow> token_scan p b (pre @ s)"
proof (induction pre arbitrary: b)
  case Nil
  then show ?case by (cases s) auto
next
  case (Cons c pre)
  have "token_scan p (\<not> provider_char c) (pre @ s)"
    using Cons.IH [OF Cons.prems(1), of "\<not> provider_char c"] Cons.prems(2)
    by (cases "pre = []") auto
  then show ?case by simp
qed

lemma hasProviderToken_literal:
  assumes "p \<noteq> []" and "raw = pre @ p @ post"
    and "pre = [] \<or> \<not> provider_char (last pre)"
    and "post = [] \<or> \<not> provider_char (hd post)"
  shows "hasProviderToken (Some raw) (Some p)"
  using assms token_scan_found [OF token_here_self [OF assms(4), of p], of pre True]
  by (auto simp: hasProviderToken_def)

lemma addProvider_None [simp]: "addProvider out None = out"
  by (simp add: addProvider_def)


lemma test_primary:
  "getPrimaryModelFromConfig testConfigObj = Some ''openai-codex/gpt-5.3-codex''"
  by (simp add: getPrimaryModelFromConfig_def testConfigObj_def opt_chain_def)

lemma trim_model: "trim ''openai-codex/gpt-5.3-codex'' = ''openai-codex/gpt-5.3-codex''"
  by (simp add: trim_def js_whitespace_def)

lemma test_provider:
  "providerFromModelRef (Some ''openai-codex/gpt-5.3-codex'') = Some ''openai-codex''"
  by (simp add: providerFromModelRef_def trim_model startsWith_def MODEL_PROVIDER_RE_def
        SIMPLE_PROVIDER_RE_def alnum_char_def provider_char_def char_between_def js_whitespace_def)

lemma trim_testConfigText: "trim testConfigText \<noteq> []"
  by (rule trim_nonempty) (simp add: testConfigText_def js_whitespace_def)

lemma trim_profilesText: "trim (profilesText p f v) \<noteq> []"
  by (rule trim_nonempty) (simp add: profilesText_def js_whitespace_def)

lemma collect_profilesObj_anthropic:
  "collectProviders (profilesObj ''anthropic'' ''name'' ''default'') [] [] = [''anthropic'']"
  by (simp add: profilesObj_def addProvider_def providerFromModelRef_def trim_def js_whitespace_def
        startsWith_def MODEL_PROVIDER_RE_def SIMPLE_PROVIDER_RE_def toLowerCase_def toLowerCase_char_def
        alnum_char_def provider_char_def char_between_def set_add_def)

lemma no_token_anthropic:
  "\<not> hasProviderToken (Some (profilesText ''anthropic'' ''name'' ''default'')) (Some ''openai-codex'')"
  by (simp add: hasProviderToken_def profilesText_def dq_def token_here_def ci_eq_def
        toLowerCase_char_def provider_char_def alnum_char_def char_between_def)

lemma parseJson_parsed: "P t = Some v \<Longrightarrow> trim t \<noteq> [] \<Longrightarrow> parseJson P (Some t) = v"
  by (auto simp: parseJson_def trim_def)

lemma parseJson_invalid: "P t = None \<Longrightarrow> parseJson P (Some t) = JNull"
  by (simp add: parseJson_def)

lemma mismatch_iff:
  "mismatch_detected (summarizeAuthState P inp) =
     (\<exists>p. primary_provider (summarizeAuthState P inp) = Some p
          \<and> p \<notin> set (providers_with_profiles (summarizeAuthState P inp)))"
  by (auto simp: summarizeAuthState_def Let_def split: option.splits)

lemma primary_provider_eq:
  "primary_provider (summarizeAuthState P inp) =
     providerFromModelRef (getPrimaryModelFromConfig (parseJson P (configText inp)))"
  by (simp add: summarizeAuthState_def Let_def)

lemma providers_eq:
  "providers_with_profiles (summarizeAuthState P inp) =
     (let providers = collectProviders (parseJson P (authProfilesText inp)) [] [];
          pp = primary_provider (summarizeAuthState P inp)
      in case pp of
           Some p \<Rightarrow> if hasProviderToken (authProfilesText inp) pp then set_add providers p else providers
         | None \<Rightarrow> providers)"
  by (simp add: summarizeAuthState_def Let_def)

lemma example_summary:
  assumes "P testConfigText = Some testConfigObj"
  shows "primary_model (summarizeAuthState P (testInput auth)) = Some ''openai-codex/gpt-5.3-codex''"
    and "primary_provider (summarizeAuthState P (testInput auth)) = Some ''openai-codex''"
proof -
  have c: "parseJson P (Some testConfigText) = testConfigObj"
    using assms trim_testConfigText by (simp add: parseJson_parsed)
  show "primary_model (summarizeAuthState P (testInput auth)) = Some ''openai-codex/gpt-5.3-codex''"
    by (simp add: summarizeAuthState_def Let_def testInput_def c test_primary)
  show "primary_provider (summarizeAuthState P (testInput auth)) = Some ''openai-codex''"
    by (simp add: primary_provider_eq testInput_def c test_primary test_provider)
qed

lemma example_mismatch:
  assumes "P testConfigText = Some testConfigObj"
    and "P (profilesText ''anthropic'' ''name'' ''default'') = Some (profilesObj ''anthropic'' ''name'' ''default'')"
  shows "mismatch_detected (summarizeAuthState P (testInput (profilesText ''anthropic'' ''name'' ''default'')))
       \<and> providers_with_profiles (summarizeAuthState P (testInput (profilesText ''anthropic'' ''name'' ''default'')))
           = [''anthropic'']"
proof -
  let ?t = "profilesText ''anthropic'' ''name'' ''default''"
  have a: "parseJson P (Some ?t) = profilesObj ''anthropic'' ''name'' ''default''"
    using assms(2) trim_profilesText [of "''anthropic''" "''name''" "''default''"]
    by (simp add: parseJson_parsed)
  have t: "authProfilesText (testInput ?t) = Some ?t" by (simp add: testInput_def)
  have pp: "primary_provider (summarizeAuthState P (testInput ?t)) = Some ''openai-codex''"
    using example_summary(2) [of P ?t] assms(1) by simp
  have p: "providers_with_profiles (summarizeAuthState P (testInput ?t)) = [''anthropic'']"
    using no_token_anthropic collect_profilesObj_anthropic
    by (simp add: providers_eq pp t a Let_def)
  show ?thesis
    unfolding mismatch_iff p pp by simp
qed

lemma collect_profilesObj_codex:
  "collectProviders (profilesObj ''openai-codex'' ''name'' ''oauth'') [] [] = [''openai-codex'']"
  by (simp add: profilesObj_def addProvider_def providerFromModelRef_def trim_def js_whitespace_def
        startsWith_def MODEL_PROVIDER_RE_def SIMPLE_PROVIDER_RE_def toLowerCase_def toLowerCase_char_def
        alnum_char_def provider_char_def char_between_def set_add_def)

lemma example_match:
  assumes "P testConfigText = Some testConfigObj"
    and "P (profilesText ''openai-codex'' ''name'' ''oauth'') = Some (profilesObj ''openai-codex'' ''name'' ''oauth'')"
  shows "\<not> mismatch_detected (summarizeAuthState P (testInput (profilesText ''openai-codex'' ''name'' ''oauth'')))
       \<and> providers_with_profiles (summarizeAuthState P (testInput (profilesText ''openai-codex'' ''name'' ''oauth'')))
           = [''openai-codex'']"
proof -
  let ?t = "profilesText ''openai-codex'' ''name'' ''oauth''"
  have a: "parseJson P (Some ?t) = profilesObj ''openai-codex'' ''name'' ''oauth''"
    using assms(2) trim_profilesText [of "''openai-codex''" "''name''" "''oauth''"]
    by (simp add: parseJson_parsed)
  have t: "authProfilesText (testInput ?t) = Some ?t" by (simp add: testInput_def)
  have pp: "primary_provider (summarizeAuthState P (testInput ?t)) = Some ''openai-codex''"
    using example_summary(2) [of P ?t] assms(1) by simp
  have p: "providers_with_profiles (summarizeAuthState P (testInput ?t)) = [''openai-codex'']"
    using collect_profilesObj_codex
    by (simp add: providers_eq pp t a set_add_def Let_def)
  show ?thesis
    unfolding mismatch_iff p pp by simp
qed


text \<open>
  C2. \<open>mismatch_detected\<close> is true exactly when a primary provider is derived from the
  model reference of the configuration and that provider is not among
  \<open>providers_with_profiles\<close>. The provider derived from a reference is the text before
  its first slash; a reference without a slash and a reference that starts with
  \<open>http://\<close> or \<open>https://\<close> give none. With the primary model
  \<open>openai-codex/gpt-5.3-codex\<close> and a store whose only profile has provider
  \<open>anthropic\<close>, \<open>mismatch_detected\<close> is true and \<open>providers_with_profiles\<close> is
  \<open>["anthropic"]\<close>; with a store that has a profile of provider \<open>openai-codex\<close>,
  \<open>mismatch_detected\<close> is false.
\<close>

theorem summarizeAuthState_mismatch:
  "mismatch_detected (summarizeAuthState P inp) =
     (\<exists>p. primary_provider (summarizeAuthState P inp) = Some p
          \<and> p \<notin> set (providers_with_profiles (summarizeAuthState P inp)))
   \<and> primary_provider (summarizeAuthState P inp) =
       providerFromModelRef (getPrimaryModelFromConfig (parseJson P (configText inp)))
   \<and> (providerFromModelRef (Some m) = Some p \<longrightarrow>
        (\<exists>rest. trim m = p @ CHR ''/'' # rest \<and> CHR ''/'' \<notin> set p))
   \<and> (CHR ''/'' \<notin> set m \<longrightarrow> providerFromModelRef (Some m) = None)
   \<and> (startsWith (trim m) ''http://'' \<or> startsWith (trim m) ''https://''
        \<longrightarrow> providerFromModelRef (Some m) = None)
   \<and> (P testConfigText = Some testConfigObj
        \<and> P (profilesText ''anthropic'' ''name'' ''default'')
            = Some (profilesObj ''anthropic'' ''name'' ''default'')
       \<longrightarrow> mismatch_detected
             (summarizeAuthState P (testInput (profilesText ''anthropic'' ''name'' ''default'')))
         \<and> providers_with_profiles
             (summarizeAuthState P (testInput (profilesText ''anthropic'' ''name'' ''default'')))
           = [''anthropic''])
   \<and> (P testConfigText = Some testConfigObj
        \<and> P (profilesText ''openai-codex'' ''name'' ''oauth'')
            = Some (profilesObj ''openai-codex'' ''name'' ''oauth'')
       \<longrightarrow> \<not> mismatch_detected
             (summarizeAuthState P (testInput (profilesText ''openai-codex'' ''name'' ''oauth''))))"
  using mismatch_iff [of P inp] primary_provider_eq [of P inp] providerFromModelRef_Some [of m p]
    providerFromModelRef_no_slash [of m] providerFromModelRef_url [of m]
    example_mismatch [of P] example_match [of P]
  by blast

theorem summarizeAuthState_mismatch_witness:
  "mismatch_detected
     (summarizeAuthState mock_JSON_parse (testInput (profilesText ''anthropic'' ''name'' ''default'')))
   \<and> providers_with_profiles
       (summarizeAuthState mock_JSON_parse (testInput (profilesText ''anthropic'' ''name'' ''default'')))
     = [''anthropic'']
   \<and> \<not> mismatch_detected
       (summarizeAuthState mock_JSON_parse (testInput (profilesText ''openai-codex'' ''name'' ''oauth'')))
   \<and> providerFromModelRef (Some ''gpt-4o'') = None"
proof -
  have c: "mock_JSON_parse testConfigText = Some testConfigObj"
    by (simp add: mock_JSON_parse_def)
  have a: "mock_JSON_parse (profilesText ''anthropic'' ''name'' ''default'')
             = Some (profilesObj ''anthropic'' ''name'' ''default'')"
    by (simp add: mock_JSON_parse_def profilesText_def testConfigText_def dq_def)
  have b: "mock_JSON_parse (profilesText ''openai-codex'' ''name'' ''oauth'')
             = Some (profilesObj ''openai-codex'' ''name'' ''oauth'')"
    by (simp add: mock_JSON_parse_def profilesText_def testConfigText_def dq_def)
  have s: "CHR ''/'' \<notin> set ''gpt-4o''" by simp
  show ?thesis
    using summarizeAuthState_mismatch [of mock_JSON_parse "testInput []" "''gpt-4o''" "[]"] a b c s
    by blast
qed


text \<open>
  C7. When the auth-profile text is not valid JSON but contains the primary provider as
  a literal substring between two token boundaries, \<open>summarizeAuthState\<close> returns a
  summary (it has no other outcome) in which \<open>providers_with_profiles\<close> holds that
  provider, \<open>mismatch_detected\<close> is false and \<open>auth_profiles_present\<close> is true.
\<close>


theorem summarizeAuthState_malformed_profiles:
  assumes "primary_provider (summarizeAuthState P inp) = Some p"
    and "authProfilesText inp = Some raw"
    and "P raw = None"
    and "raw = pre @ p @ post"
    and "pre = [] \<or> \<not> provider_char (last pre)"
    and "post = [] \<or> \<not> provider_char (hd post)"
  shows "providers_with_profiles (summarizeAuthState P inp) = [p]
       \<and> \<not> mismatch_detected (summarizeAuthState P inp)
       \<and> auth_profiles_present (summarizeAuthState P inp)"
proof -
  from assms(1) obtain m where m: "providerFromModelRef (Some m) = Some p"
    unfolding primary_provider_eq by (cases "getPrimaryModelFromConfig (parseJson P (configText inp))")
      (auto simp: providerFromModelRef_def)
  from providerFromModelRef_Some [OF m] have sp: "SIMPLE_PROVIDER_RE p" by blast
  then obtain c cs where p: "p = c # cs" and al: "alnum_char c"
    by (cases p) (auto simp: SIMPLE_PROVIDER_RE_def)
  have tok: "hasProviderToken (Some raw) (Some p)"
    using hasProviderToken_literal [OF _ assms(4,5,6)] p by simp
  have "c \<in> set raw" using assms(4) p by simp
  with al have tr: "trim raw \<noteq> []"
    using alnum_not_whitespace trim_nonempty by blast
  have inv: "parseJson P (Some raw) = JNull"
    using assms(3) by (simp add: parseJson_invalid)
  have pr: "providers_with_profiles (summarizeAuthState P inp) = [p]"
    using tok by (simp add: providers_eq assms(1,2) inv Let_def set_add_def)
  have ap: "auth_profiles_present (summarizeAuthState P inp)"
    using tr by (simp add: summarizeAuthState_def Let_def assms(2))
  show ?thesis
    using pr ap assms(1) by (simp add: mismatch_iff)
qed

theorem summarizeAuthState_malformed_profiles_witness:
  "providers_with_profiles (summarizeAuthState mock_JSON_parse (testInput truncatedProfilesText))
     = [''openai-codex'']
   \<and> \<not> mismatch_detected (summarizeAuthState mock_JSON_parse (testInput truncatedProfilesText))
   \<and> auth_profiles_present (summarizeAuthState mock_JSON_parse (testInput truncatedProfilesText))"
proof -
  let ?pre = "''{'' @ dq @ ''profiles'' @ dq @ '':[{'' @ dq @ ''provider'' @ dq @ '':'' @ dq"
  have c: "mock_JSON_parse testConfigText = Some testConfigObj"
    by (simp add: mock_JSON_parse_def)
  have pp: "primary_provider (summarizeAuthState mock_JSON_parse (testInput truncatedProfilesText))
              = Some ''openai-codex''"
    using example_summary(2) [of mock_JSON_parse truncatedProfilesText] c by simp
  have t: "authProfilesText (testInput truncatedProfilesText) = Some truncatedProfilesText"
    by (simp add: testInput_def)
  have n: "mock_JSON_parse truncatedProfilesText = None"
    by (simp add: mock_JSON_parse_def truncatedProfilesText_def testConfigText_def profilesText_def dq_def)
  have r: "truncatedProfilesText = ?pre @ ''openai-codex'' @ dq"
    by (simp add: truncatedProfilesText_def)
  have b1: "?pre = [] \<or> \<not> provider_char (last ?pre)"
    by (simp add: dq_def provider_char_def alnum_char_def char_between_def)
  have b2: "dq = [] \<or> \<not> provider_char (hd dq)"
    by (simp add: dq_def provider_char_def alnum_char_def char_between_def)
  show ?thesis
    by (rule summarizeAuthState_malformed_profiles [OF pp t n r b1 b2])
qed















subsection \<open>The config patcher\<close>

lemma is_fun_kind: "is_fun v = (kind v = 6)"
  by (cases v) auto

lemma kind_from_json: "kind (from_json j) < 6"
  by (cases j) auto

lemma not_fun_from_json [simp]: "\<not> is_fun (from_json j)"
  using kind_from_json [of j] by (simp add: is_fun_kind)

lemma filter_zip_all:
  "(\<forall>e \<in> set al. P e) \<Longrightarrow> map snd (filter (\<lambda>(e, _). P e) (zip al (map f al))) = map f al"
  by (induction al) auto

lemma to_json_VObj_nonfun:
  "nonfun al \<Longrightarrow> to_json (VObj al) = JObj (map (map_prod id to_json) al)"
  using filter_zip_all [of al "\<lambda>e. \<not> is_fun (snd e)" "map_prod id to_json"]
  by (simp add: nonfun_def)

declare to_json.simps(6) [simp del]

lemma nonfun_from_json [simp]: "nonfun (map (map_prod id from_json) jal)"
  by (auto simp: nonfun_def)

lemma to_json_from_json [simp]: "to_json (from_json j) = j"
proof (induction j)
  case (JArr xs)
  then show ?case by (simp add: map_idI)
next
  case (JObj kvs)
  have "map (map_prod id to_json) (map (map_prod id from_json) kvs) = kvs"
  proof -
    have "\<And>e. e \<in> set kvs \<Longrightarrow> map_prod id to_json (map_prod id from_json e) = e"
    proof -
      fix e assume "e \<in> set kvs"
      moreover obtain k v where "e = (k, v)" by (cases e rule: prod.exhaust)
      ultimately show "map_prod id to_json (map_prod id from_json e) = e"
        using JObj [of "(k, v)" v] by simp
    qed
    then show ?thesis by (simp add: map_idI)
  qed
  then show ?case
    unfolding from_json.simps to_json_VObj_nonfun [OF nonfun_from_json] by simp
qed simp_all

lemma from_to_from [simp]: "from_json (to_json (from_json j)) = from_json j"
  by simp

subsection \<open>Kinds are preserved\<close>

lemma kind_put [simp]: "kind (put r k v) = kind r"
  by (cases r) auto

lemma kind_exec_op: "exec_op o' r = Inr r' \<Longrightarrow> kind r' = kind r"
  by (cases o'; cases r) (auto split: if_splits)

lemma kind_exec_stmt: "exec_stmt st r = Inr r' \<Longrightarrow> kind r' = kind r"
proof (cases "fst st")
  case Nil
  then show "exec_stmt st r = Inr r' \<Longrightarrow> kind r' = kind r"
    by (auto simp: exec_stmt_def kind_exec_op split: if_splits)
next
  case (Cons k ks)
  then show "exec_stmt st r = Inr r' \<Longrightarrow> kind r' = kind r"
    by (auto simp: exec_stmt_def split: if_splits option.splits sum.splits)
qed


subsection \<open>Receivers that are no objects\<close>






subsection \<open>Object receivers: every statement rewrites one key\<close>

lemma exec_stmt_VObj:
  "exec_stmt st (VObj al) =
     (case kstep st (map_of al (key st)) of
        Inl e \<Rightarrow> Inl e
      | Inr c' \<Rightarrow> Inr (VObj (AList.update (key st) c' al)))"
proof (cases st)
  case (Pair p opn)
  show ?thesis
  proof (cases p)
    case Nil
    with Pair show ?thesis by (cases opn) (simp_all add: exec_stmt_def)
  next
    case (Cons k ks)
    with Pair show ?thesis
      by (cases "map_of al k") (auto simp: exec_stmt_def split: sum.splits)
  qed
qed

lemma kstep_nonfun:
  assumes "top_nonfun st" and "kstep st c = Inr c'" and "\<forall>x. c = Some x \<longrightarrow> \<not> is_fun x"
  shows "\<not> is_fun c'"
proof (cases st)
  case (Pair p opn)
  show ?thesis
  proof (cases p)
    case Nil
    with Pair assms show ?thesis
      by (cases opn) (auto simp: top_nonfun_def split: option.splits if_splits)
  next
    case (Cons k ks)
    with Pair assms show ?thesis
      by (cases c) (auto simp: is_fun_kind dest: kind_exec_stmt)
  qed
qed

lemma nonfun_update: "nonfun al \<Longrightarrow> \<not> is_fun v \<Longrightarrow> nonfun (AList.update k v al)"
  by (induction al) (auto simp: nonfun_def)

lemma nonfun_map_of: "nonfun al \<Longrightarrow> map_of al k = Some x \<Longrightarrow> \<not> is_fun x"
  by (auto simp: nonfun_def dest!: map_of_SomeD)

lemma run_VObj:
  assumes "run sts (VObj al) = Inr r"
    and "\<forall>st \<in> set sts. top_nonfun st"
    and "nonfun al"
  shows "\<exists>al'. r = VObj al' \<and> nonfun al'
           \<and> (\<forall>k. kres sts k (map_of al k) = Inr (map_of al' k))
           \<and> (distinct (map fst al) \<longrightarrow> distinct (map fst al'))
           \<and> fst ` set al \<subseteq> fst ` set al' \<and> key ` set sts \<subseteq> fst ` set al'
           \<and> (key ` set sts \<subseteq> fst ` set al \<longrightarrow> map fst al' = map fst al)"
  using assms
proof (induction sts arbitrary: al)
  case Nil
  then show ?case by auto
next
  case (Cons st sts)
  from Cons.prems(1) obtain c' where c': "kstep st (map_of al (key st)) = Inr c'"
     and rest: "run sts (VObj (AList.update (key st) c' al)) = Inr r"
    by (auto simp: exec_stmt_VObj split: sum.splits)
  let ?al1 = "AList.update (key st) c' al"
  have nf: "\<not> is_fun c'"
    using kstep_nonfun [OF _ c'] Cons.prems(2,3) nonfun_map_of by auto
  have nf1: "nonfun ?al1" using Cons.prems(3) nf by (rule nonfun_update)
  from Cons.IH [OF rest _ nf1] Cons.prems(2)
  obtain al' where r: "r = VObj al'" and nf': "nonfun al'"
    and kr: "\<forall>k. kres sts k (map_of ?al1 k) = Inr (map_of al' k)"
    and d: "distinct (map fst ?al1) \<longrightarrow> distinct (map fst al')"
    and s1: "fst ` set ?al1 \<subseteq> fst ` set al'" and s2: "key ` set sts \<subseteq> fst ` set al'"
    and s3: "key ` set sts \<subseteq> fst ` set ?al1 \<longrightarrow> map fst al' = map fst ?al1"
    by auto
  have dom1: "fst ` set ?al1 = insert (key st) (fst ` set al)"
    by (simp add: dom_update)
  have kr': "\<forall>k. kres (st # sts) k (map_of al k) = Inr (map_of al' k)"
  proof
    fix k
    show "kres (st # sts) k (map_of al k) = Inr (map_of al' k)"
      using kr [rule_format, of k] c' by (auto simp: update_conv')
  qed
  have d': "distinct (map fst al) \<longrightarrow> distinct (map fst al')"
    using d by (simp add: distinct_update)
  have s3': "key ` set (st # sts) \<subseteq> fst ` set al \<longrightarrow> map fst al' = map fst al"
  proof
    assume a: "key ` set (st # sts) \<subseteq> fst ` set al"
    then have "key st \<in> fst ` set al" by simp
    then have "map fst ?al1 = map fst al"
      by (simp add: update_keys)
    moreover have "key ` set sts \<subseteq> fst ` set ?al1" using a dom1 by auto
    ultimately show "map fst al' = map fst al" using s3 by simp
  qed
  show ?case
    using r nf' kr' d' s1 s2 s3' dom1 by auto
qed



lemma kres_filter: "kres sts k c = kres (filter (\<lambda>st. key st = k) sts) k c"
  by (induction sts arbitrary: c) (auto split: sum.splits)


lemma kstep_deep: "fst st \<noteq> [] \<Longrightarrow> kstep st (Some c) = exec_stmt (strip st) c"
  by (cases st; cases "fst st") (auto simp: strip_def)


lemma kres_deep:
  "\<forall>st \<in> set D. key st = k \<and> fst st \<noteq> [] \<Longrightarrow>
   kres D k (Some c) = (case run (map strip D) c of Inl e \<Rightarrow> Inl e | Inr c' \<Rightarrow> Inr (Some c'))"
  by (induction D arbitrary: c) (auto simp: kstep_deep split: sum.splits)


lemma lit_ok_nonfun: "lit_ok v \<Longrightarrow> \<not> is_fun v"
  by (metis lit_ok_def not_fun_from_json)

lemma top_ok_nonfun: "top_ok st \<Longrightarrow> top_nonfun st"
  by (cases st rule: top_ok.cases) (auto simp: top_nonfun_def lit_ok_nonfun)




lemma map_of_map_prod: "map_of (map (map_prod id f) al) k = map_option f (map_of al k)"
  by (induction al) auto

lemma stable_Nil: "rerun_stable (run [])"
  by (simp add: rerun_stable_def)



lemma run_replay:
  assumes "run sts (from_json j) = Inr r" and "to_json r = j"
  shows "\<exists>r'. run sts (from_json (to_json r)) = Inr r' \<and> to_json r' = to_json r"
  using assms by auto



lemma sub_append [simp]: "sub k (a @ b) = sub k a @ sub k b"
  by (simp add: sub_def)

lemma sub_Nil [simp]: "sub k [] = []"
  by (simp add: sub_def)

lemma sub_Cons_top [simp]: "sub k (([], opn) # sts) = sub k sts"
  by (simp add: sub_def)

lemma sub_Cons_deep [simp]:
  "sub k ((k' # ks, opn) # sts) = (if k' = k then (ks, opn) # sub k sts else sub k sts)"
  by (simp add: sub_def strip_def)

lemma key_pattern_single_top:
  "key_pattern k sts = (case filter (\<lambda>st. key st = k) sts of [] \<Rightarrow> True | st # rest \<Rightarrow> \<forall>s \<in> set rest. fst s \<noteq> [])"
  by (simp add: key_pattern_def)

lemma lit_simps [simp]:
  "lit_ok (VObj [])" "lit_ok (VArr [] [])" "lit_ok (VBool b)" "lit_ok (VNum n)" "lit_ok (VStr s)"
  "lit_ok (VArr [VStr s] [])"
  by (simp_all add: lit_ok_def to_json.simps(6))


lemma sub_base:
  "sub ''plugins'' base_statements =
     [([], OrDefault ''entries'' (VObj [])),
      ([], OrDefault ''load'' (VObj [])),
      ([''load''], OrDefault ''paths'' (VArr [] [])),
      ([''load'', ''paths''], PushUnique extensions_path),
      ([''entries''], OrDefault ''trace-model'' (VObj [])),
      ([''entries'', ''trace-model''], Assign ''enabled'' (VBool True))]"
  "sub ''gateway'' base_statements =
     [([], Assign ''port'' (VNum 18789)),
      ([], Assign ''mode'' (VStr ''local'')),
      ([], Assign ''trustedProxies'' (VArr [VStr ''10.1.0.0''] []))]"
  "sub ''channels'' base_statements = []"
  "sub ''models'' base_statements = []"
  "sub ''agents'' base_statements = []"
  by (simp_all add: base_statements_def)

lemma sub_token:
  "sub ''plugins'' (token_statements env) = []"
  "sub ''channels'' (token_statements env) = []"
  "sub ''models'' (token_statements env) = []"
  "sub ''agents'' (token_statements env) = []"
  by (simp_all add: token_statements_def)

lemma sub_dev:
  "sub ''plugins'' (dev_statements env) = []"
  "sub ''channels'' (dev_statements env) = []"
  "sub ''models'' (dev_statements env) = []"
  "sub ''agents'' (dev_statements env) = []"
  by (simp_all add: dev_statements_def)

lemma sub_model:
  "sub ''plugins'' (model_statements env) = []"
  "sub ''channels'' (model_statements env) = []"
  "sub ''gateway'' (model_statements env) = []"
  by (simp_all add: model_statements_def Let_def)

lemma sub_telegram:
  "sub ''plugins'' (telegram_statements env) = []"
  "sub ''gateway'' (telegram_statements env) = []"
  "sub ''models'' (telegram_statements env) = []"
  "sub ''agents'' (telegram_statements env) = []"
  by (simp_all add: telegram_statements_def Let_def)

lemma sub_discord:
  "sub ''plugins'' (discord_statements env) = []"
  "sub ''gateway'' (discord_statements env) = []"
  "sub ''models'' (discord_statements env) = []"
  "sub ''agents'' (discord_statements env) = []"
  by (simp_all add: discord_statements_def Let_def)

lemma sub_slack:
  "sub ''plugins'' (slack_statements env) = []"
  "sub ''gateway'' (slack_statements env) = []"
  "sub ''models'' (slack_statements env) = []"
  "sub ''agents'' (slack_statements env) = []"
  by (simp_all add: slack_statements_def)

lemmas sub_groups = sub_base sub_token sub_dev sub_model sub_telegram sub_discord sub_slack




lemma lit_ok_strs [simp]: "lit_ok (VArr (map VStr xs) [])"
  by (simp add: lit_ok_def comp_def list_all_iff)

lemma sub_channels:
  "sub ''channels'' (patch_statements env) =
     sub ''channels'' (telegram_statements env) @ sub ''channels'' (discord_statements env)
       @ sub ''channels'' (slack_statements env)"
  by (simp add: patch_statements_def sub_groups)


lemma on_base:
  "filter (\<lambda>st. key st = ''models'') (base_statements) = []"
  "filter (\<lambda>st. key st = ''agents'') (base_statements) = []"
  by (simp_all add: base_statements_def)

lemma keys_base:
  "\<forall>st \<in> set (base_statements). top_ok st \<and> key st \<in> {''gateway'', ''channels'', ''plugins''}"
  by (auto simp: base_statements_def lit_ok_def to_json.simps(6))

lemma on_token:
  "filter (\<lambda>st. key st = ''channels'') (token_statements env) = []"
  "filter (\<lambda>st. key st = ''plugins'') (token_statements env) = []"
  "filter (\<lambda>st. key st = ''models'') (token_statements env) = []"
  "filter (\<lambda>st. key st = ''agents'') (token_statements env) = []"
  by (simp_all add: token_statements_def)

lemma keys_token:
  "\<forall>st \<in> set (token_statements env). top_ok st \<and> key st \<in> {''gateway''}"
  by (auto simp: token_statements_def lit_ok_def to_json.simps(6))

lemma on_dev:
  "filter (\<lambda>st. key st = ''channels'') (dev_statements env) = []"
  "filter (\<lambda>st. key st = ''plugins'') (dev_statements env) = []"
  "filter (\<lambda>st. key st = ''models'') (dev_statements env) = []"
  "filter (\<lambda>st. key st = ''agents'') (dev_statements env) = []"
  by (simp_all add: dev_statements_def)

lemma keys_dev:
  "\<forall>st \<in> set (dev_statements env). top_ok st \<and> key st \<in> {''gateway''}"
  by (auto simp: dev_statements_def lit_ok_def to_json.simps(6))

lemma on_model:
  "filter (\<lambda>st. key st = ''gateway'') (model_statements env) = []"
  "filter (\<lambda>st. key st = ''channels'') (model_statements env) = []"
  "filter (\<lambda>st. key st = ''plugins'') (model_statements env) = []"
  by (simp_all add: model_statements_def Let_def)

lemma keys_model:
  "\<forall>st \<in> set (model_statements env). top_ok st \<and> key st \<in> {''models'', ''agents''}"
  by (auto simp: model_statements_def Let_def lit_ok_def to_json.simps(6))

lemma on_telegram:
  "filter (\<lambda>st. key st = ''gateway'') (telegram_statements env) = []"
  "filter (\<lambda>st. key st = ''plugins'') (telegram_statements env) = []"
  "filter (\<lambda>st. key st = ''models'') (telegram_statements env) = []"
  "filter (\<lambda>st. key st = ''agents'') (telegram_statements env) = []"
  by (simp_all add: telegram_statements_def Let_def)

lemma keys_telegram:
  "\<forall>st \<in> set (telegram_statements env). top_ok st \<and> key st \<in> {''channels''}"
  by (auto simp: telegram_statements_def Let_def lit_ok_def to_json.simps(6))

lemma on_discord:
  "filter (\<lambda>st. key st = ''gateway'') (discord_statements env) = []"
  "filter (\<lambda>st. key st = ''plugins'') (discord_statements env) = []"
  "filter (\<lambda>st. key st = ''models'') (discord_statements env) = []"
  "filter (\<lambda>st. key st = ''agents'') (discord_statements env) = []"
  by (simp_all add: discord_statements_def Let_def)

lemma keys_discord:
  "\<forall>st \<in> set (discord_statements env). top_ok st \<and> key st \<in> {''channels''}"
  by (auto simp: discord_statements_def Let_def lit_ok_def to_json.simps(6))

lemma on_slack:
  "filter (\<lambda>st. key st = ''gateway'') (slack_statements env) = []"
  "filter (\<lambda>st. key st = ''plugins'') (slack_statements env) = []"
  "filter (\<lambda>st. key st = ''models'') (slack_statements env) = []"
  "filter (\<lambda>st. key st = ''agents'') (slack_statements env) = []"
  by (simp_all add: slack_statements_def)

lemma keys_slack:
  "\<forall>st \<in> set (slack_statements env). top_ok st \<and> key st \<in> {''channels''}"
  by (auto simp: slack_statements_def lit_ok_def to_json.simps(6))

lemmas on_groups = on_base on_token on_dev on_model on_telegram on_discord on_slack

lemma keys_patch:
  "\<forall>st \<in> set (patch_statements env).
     top_ok st \<and> key st \<in> {''gateway'', ''channels'', ''plugins'', ''models'', ''agents''}"
  using keys_base keys_token [of env] keys_dev [of env] keys_model [of env] keys_telegram [of env]
    keys_discord [of env] keys_slack [of env]
  by (auto simp: patch_statements_def)

lemma deep_channels:
  "\<forall>s \<in> set (telegram_statements env @ discord_statements env @ slack_statements env). fst s \<noteq> []"
  by (auto simp: telegram_statements_def discord_statements_def slack_statements_def Let_def
        split: if_splits)















lemma patch_staleConfig: "patch_config patchEnv (Some staleConfig) = Inr patchedStaleConfig"
  by code_simp





lemma run_append:
  "run (A @ B) r = (case run A r of Inl e \<Rightarrow> Inl e | Inr r' \<Rightarrow> run B r')"
  by (induction A arbitrary: r) (auto split: sum.splits)

lemma run_telegram:
  "\<exists>al'. run (sub ''channels'' (telegram_statements env)) (VObj al) = Inr (VObj al')
     \<and> (nonfun al \<longrightarrow> nonfun al')
     \<and> (\<forall>k. k \<noteq> ''telegram'' \<longrightarrow> map_of al' k = map_of al k)
     \<and> (truthy_str (env ''TELEGRAM_BOT_TOKEN'') \<longrightarrow>
          map_of al' ''telegram'' = Some (VObj
            ([(''botToken'', VStr (the (env ''TELEGRAM_BOT_TOKEN''))),
              (''enabled'', VBool True),
              (''dmPolicy'', VStr (or_else (env ''TELEGRAM_DM_POLICY'') ''pairing''))]
             @ (if truthy_str (env ''TELEGRAM_DM_ALLOW_FROM'')
                then [(''allowFrom'',
                       VArr (map VStr (split_on (CHR '','') (the (env ''TELEGRAM_DM_ALLOW_FROM'')))) [])]
                else if or_else (env ''TELEGRAM_DM_POLICY'') ''pairing'' = ''open''
                then [(''allowFrom'', VArr [VStr ''*''] [])]
                else []))))"
  by (simp add: telegram_statements_def sub_def strip_def exec_stmt_def Let_def update_conv'
        nonfun_update)

lemma run_discord:
  "\<exists>al'. run (sub ''channels'' (discord_statements env)) (VObj al) = Inr (VObj al')
     \<and> (nonfun al \<longrightarrow> nonfun al')
     \<and> (\<forall>k. k \<noteq> ''discord'' \<longrightarrow> map_of al' k = map_of al k)
     \<and> (truthy_str (env ''DISCORD_BOT_TOKEN'') \<longrightarrow>
          map_of al' ''discord'' = Some (VObj
            [(''token'', VStr (the (env ''DISCORD_BOT_TOKEN''))),
             (''enabled'', VBool True),
             (''dm'', VObj ([(''policy'', VStr (or_else (env ''DISCORD_DM_POLICY'') ''pairing''))]
                @ (if or_else (env ''DISCORD_DM_POLICY'') ''pairing'' = ''open''
                   then [(''allowFrom'', VArr [VStr ''*''] [])] else [])))]))"
  by (simp add: discord_statements_def sub_def strip_def exec_stmt_def Let_def update_conv'
        nonfun_update)

lemma run_slack:
  "\<exists>al'. run (sub ''channels'' (slack_statements env)) (VObj al) = Inr (VObj al')
     \<and> (nonfun al \<longrightarrow> nonfun al')
     \<and> (\<forall>k. k \<noteq> ''slack'' \<longrightarrow> map_of al' k = map_of al k)
     \<and> (truthy_str (env ''SLACK_BOT_TOKEN'') \<and> truthy_str (env ''SLACK_APP_TOKEN'') \<longrightarrow>
          map_of al' ''slack'' = Some (VObj
            [(''botToken'', VStr (the (env ''SLACK_BOT_TOKEN''))),
             (''appToken'', VStr (the (env ''SLACK_APP_TOKEN''))),
             (''enabled'', VBool True)]))"
  by (auto simp: slack_statements_def sub_def strip_def exec_stmt_def update_conv' nonfun_update)

lemma run_channels:
  assumes "nonfun al"
  shows "\<exists>al'. run (sub ''channels'' (patch_statements env)) (VObj al) = Inr (VObj al')
     \<and> nonfun al'
     \<and> (truthy_str (env ''TELEGRAM_BOT_TOKEN'') \<longrightarrow>
          map_of al' ''telegram'' = Some (VObj
            ([(''botToken'', VStr (the (env ''TELEGRAM_BOT_TOKEN''))),
              (''enabled'', VBool True),
              (''dmPolicy'', VStr (or_else (env ''TELEGRAM_DM_POLICY'') ''pairing''))]
             @ (if truthy_str (env ''TELEGRAM_DM_ALLOW_FROM'')
                then [(''allowFrom'',
                       VArr (map VStr (split_on (CHR '','') (the (env ''TELEGRAM_DM_ALLOW_FROM'')))) [])]
                else if or_else (env ''TELEGRAM_DM_POLICY'') ''pairing'' = ''open''
                then [(''allowFrom'', VArr [VStr ''*''] [])]
                else []))))
     \<and> (truthy_str (env ''DISCORD_BOT_TOKEN'') \<longrightarrow>
          map_of al' ''discord'' = Some (VObj
            [(''token'', VStr (the (env ''DISCORD_BOT_TOKEN''))),
             (''enabled'', VBool True),
             (''dm'', VObj ([(''policy'', VStr (or_else (env ''DISCORD_DM_POLICY'') ''pairing''))]
                @ (if or_else (env ''DISCORD_DM_POLICY'') ''pairing'' = ''open''
                   then [(''allowFrom'', VArr [VStr ''*''] [])] else [])))]))
     \<and> (truthy_str (env ''SLACK_BOT_TOKEN'') \<and> truthy_str (env ''SLACK_APP_TOKEN'') \<longrightarrow>
          map_of al' ''slack'' = Some (VObj
            [(''botToken'', VStr (the (env ''SLACK_BOT_TOKEN''))),
             (''appToken'', VStr (the (env ''SLACK_APP_TOKEN''))),
             (''enabled'', VBool True)]))"
proof -
  from run_telegram [of env al] obtain al1 where
    t: "run (sub ''channels'' (telegram_statements env)) (VObj al) = Inr (VObj al1)"
    "nonfun al \<longrightarrow> nonfun al1" "\<forall>k. k \<noteq> ''telegram'' \<longrightarrow> map_of al1 k = map_of al k"
    and tv: "truthy_str (env ''TELEGRAM_BOT_TOKEN'') \<longrightarrow>
          map_of al1 ''telegram'' = Some (VObj
            ([(''botToken'', VStr (the (env ''TELEGRAM_BOT_TOKEN''))),
              (''enabled'', VBool True),
              (''dmPolicy'', VStr (or_else (env ''TELEGRAM_DM_POLICY'') ''pairing''))]
             @ (if truthy_str (env ''TELEGRAM_DM_ALLOW_FROM'')
                then [(''allowFrom'',
                       VArr (map VStr (split_on (CHR '','') (the (env ''TELEGRAM_DM_ALLOW_FROM'')))) [])]
                else if or_else (env ''TELEGRAM_DM_POLICY'') ''pairing'' = ''open''
                then [(''allowFrom'', VArr [VStr ''*''] [])]
                else [])))"
    by blast
  from run_discord [of env al1] obtain al2 where
    d: "run (sub ''channels'' (discord_statements env)) (VObj al1) = Inr (VObj al2)"
    "nonfun al1 \<longrightarrow> nonfun al2" "\<forall>k. k \<noteq> ''discord'' \<longrightarrow> map_of al2 k = map_of al1 k"
    and dv: "truthy_str (env ''DISCORD_BOT_TOKEN'') \<longrightarrow>
          map_of al2 ''discord'' = Some (VObj
            [(''token'', VStr (the (env ''DISCORD_BOT_TOKEN''))),
             (''enabled'', VBool True),
             (''dm'', VObj ([(''policy'', VStr (or_else (env ''DISCORD_DM_POLICY'') ''pairing''))]
                @ (if or_else (env ''DISCORD_DM_POLICY'') ''pairing'' = ''open''
                   then [(''allowFrom'', VArr [VStr ''*''] [])] else [])))])"
    by blast
  from run_slack [of env al2] obtain al3 where
    s: "run (sub ''channels'' (slack_statements env)) (VObj al2) = Inr (VObj al3)"
    "nonfun al2 \<longrightarrow> nonfun al3" "\<forall>k. k \<noteq> ''slack'' \<longrightarrow> map_of al3 k = map_of al2 k"
    and sv: "truthy_str (env ''SLACK_BOT_TOKEN'') \<and> truthy_str (env ''SLACK_APP_TOKEN'') \<longrightarrow>
          map_of al3 ''slack'' = Some (VObj
            [(''botToken'', VStr (the (env ''SLACK_BOT_TOKEN''))),
             (''appToken'', VStr (the (env ''SLACK_APP_TOKEN''))),
             (''enabled'', VBool True)])"
    by blast
  have r: "run (sub ''channels'' (patch_statements env)) (VObj al) = Inr (VObj al3)"
    by (simp add: sub_channels run_append t(1) d(1) s(1))
  have nf: "nonfun al3" using assms t(2) d(2) s(2) by blast
  have m1: "map_of al3 ''telegram'' = map_of al1 ''telegram''" using d(3) s(3) by simp
  have m2: "map_of al3 ''discord'' = map_of al2 ''discord''" using s(3) by simp
  show ?thesis
    apply (rule exI [of _ al3])
    using r nf tv dv sv by (simp only: m1 m2 simp_thms)
qed

lemma kres_channels:
  assumes "c0 = None \<or> (\<exists>al. c0 = Some (VObj al))"
  shows "kres (patch_statements env) ''channels'' c0 =
           (case run (sub ''channels'' (patch_statements env))
                   (case c0 of None \<Rightarrow> VObj [] | Some c \<Rightarrow> c) of
              Inl e \<Rightarrow> Inl e | Inr c' \<Rightarrow> Inr (Some c'))"
proof -
  let ?D = "telegram_statements env @ discord_statements env @ slack_statements env"
  let ?F = "filter (\<lambda>st. key st = ''channels'') ?D"
  have f: "filter (\<lambda>st. key st = ''channels'') (patch_statements env) =
        ([], OrDefault ''channels'' (VObj [])) # ?F"
    by (simp add: patch_statements_def on_groups) (simp add: base_statements_def)
  have deep: "\<forall>st \<in> set ?F. key st = ''channels'' \<and> fst st \<noteq> []"
    using deep_channels [of env] by auto
  have "sub ''channels'' (patch_statements env) = sub ''channels'' ?D"
    by (simp add: sub_channels)
  also have "\<dots> = map strip ?F"
    unfolding sub_def using deep_channels [of env]
    by (intro arg_cong [where f = "map strip"] filter_cong) auto
  finally have subF: "sub ''channels'' (patch_statements env) = map strip ?F" .
  have k1: "kstep ([], OrDefault ''channels'' (VObj [])) c0
              = Inr (case c0 of None \<Rightarrow> VObj [] | Some c \<Rightarrow> c)"
    using assms by auto
  have "kres (patch_statements env) ''channels'' c0
          = kres (([], OrDefault ''channels'' (VObj [])) # ?F) ''channels'' c0"
    by (subst kres_filter) (simp only: f)
  also have "\<dots> = kres ?F ''channels'' (Some (case c0 of None \<Rightarrow> VObj [] | Some c \<Rightarrow> c))"
    by (simp only: kres.simps key.simps k1 sum.case) simp
  also have "\<dots> = (case run (map strip ?F) (case c0 of None \<Rightarrow> VObj [] | Some c \<Rightarrow> c) of
              Inl e \<Rightarrow> Inl e | Inr c' \<Rightarrow> Inr (Some c'))"
    by (rule kres_deep [OF deep])
  finally show ?thesis by (simp only: subF)
qed

text \<open>
  C4. For every configuration object whose \<open>channels\<close> is an object (or absent), whatever
  stale members its channel subtrees hold: if the patch completes, then with a Telegram bot
  token in the environment \<open>channels.telegram\<close> of the result consists of exactly
  \<open>botToken\<close>, \<open>enabled\<close>, \<open>dmPolicy\<close> and, when an allow-list is given or the policy
  is \<open>open\<close>, \<open>allowFrom\<close> (the given list, else \<open>['*']\<close>); with a Discord token
  \<open>channels.discord\<close> is exactly \<open>token\<close>, \<open>enabled\<close>, \<open>dm\<close> with
  \<open>allowFrom = ['*']\<close> under the open policy; with both Slack tokens \<open>channels.slack\<close>
  is exactly \<open>botToken\<close>, \<open>appToken\<close>, \<open>enabled\<close>.
\<close>

theorem channels_replaced_wholesale:
  assumes ret: "patch_config env (Some (JObj doc)) = Inr d'"
    and ch: "\<forall>c. map_of doc ''channels'' = Some c \<longrightarrow> (\<exists>stale. c = JObj stale)"
  shows "(truthy_str (env ''TELEGRAM_BOT_TOKEN'') \<longrightarrow>
          json_at d' [''channels'', ''telegram''] = Some (JObj
            ([(''botToken'', JStr (the (env ''TELEGRAM_BOT_TOKEN''))),
              (''enabled'', JBool True),
              (''dmPolicy'', JStr (or_else (env ''TELEGRAM_DM_POLICY'') ''pairing''))]
             @ (if truthy_str (env ''TELEGRAM_DM_ALLOW_FROM'')
                then [(''allowFrom'',
                       JArr (map JStr (split_on (CHR '','') (the (env ''TELEGRAM_DM_ALLOW_FROM'')))))]
                else if or_else (env ''TELEGRAM_DM_POLICY'') ''pairing'' = ''open''
                then [(''allowFrom'', JArr [JStr ''*''])]
                else []))))
     \<and> (truthy_str (env ''DISCORD_BOT_TOKEN'') \<longrightarrow>
          json_at d' [''channels'', ''discord''] = Some (JObj
            [(''token'', JStr (the (env ''DISCORD_BOT_TOKEN''))),
             (''enabled'', JBool True),
             (''dm'', JObj ([(''policy'', JStr (or_else (env ''DISCORD_DM_POLICY'') ''pairing''))]
                @ (if or_else (env ''DISCORD_DM_POLICY'') ''pairing'' = ''open''
                   then [(''allowFrom'', JArr [JStr ''*''])] else [])))]))
     \<and> (truthy_str (env ''SLACK_BOT_TOKEN'') \<and> truthy_str (env ''SLACK_APP_TOKEN'') \<longrightarrow>
          json_at d' [''channels'', ''slack''] = Some (JObj
            [(''botToken'', JStr (the (env ''SLACK_BOT_TOKEN''))),
             (''appToken'', JStr (the (env ''SLACK_APP_TOKEN''))),
             (''enabled'', JBool True)]))"
proof -
  let ?sts = "patch_statements env"
  let ?al0 = "map (map_prod id from_json) doc"
  from ret obtain r where run1: "run ?sts (VObj ?al0) = Inr r" and d': "d' = to_json r"
    by (auto simp: patch_config_def patch_document_def split: sum.splits)
  have tn: "\<forall>st \<in> set ?sts. top_nonfun st" using keys_patch [of env] top_ok_nonfun by blast
  from run_VObj [OF run1 tn nonfun_from_json]
  obtain al1 where r: "r = VObj al1" and nf1: "nonfun al1"
    and kr: "kres ?sts ''channels'' (map_of ?al0 ''channels'') = Inr (map_of al1 ''channels'')"
    by blast
  define c0 where "c0 = map_of ?al0 ''channels''"
  define chal where "chal = (case c0 of None \<Rightarrow> [] | Some c \<Rightarrow> (case c of VObj al \<Rightarrow> al | _ \<Rightarrow> []))"
  have c0: "c0 = map_option from_json (map_of doc ''channels'')"
    unfolding c0_def by (rule map_of_map_prod)
  have shape: "c0 = None \<or> (\<exists>al. c0 = Some (VObj al))"
    using ch by (cases "map_of doc ''channels''") (auto simp: c0)
  have start: "(case c0 of None \<Rightarrow> VObj [] | Some c \<Rightarrow> c) = VObj chal"
    using shape by (auto simp: chal_def)
  have nfc: "nonfun chal"
  proof (cases "map_of doc ''channels''")
    case None
    then show ?thesis by (simp add: chal_def c0 nonfun_def)
  next
    case (Some c)
    with ch obtain stale where "c = JObj stale" by auto
    with Some show ?thesis by (simp add: chal_def c0)
  qed
  from run_channels [OF nfc, of env] obtain chal' where
    rc: "run (sub ''channels'' ?sts) (VObj chal) = Inr (VObj chal')" and nfc': "nonfun chal'"
    and tv: "truthy_str (env ''TELEGRAM_BOT_TOKEN'') \<longrightarrow>
          map_of chal' ''telegram'' = Some (VObj
            ([(''botToken'', VStr (the (env ''TELEGRAM_BOT_TOKEN''))),
              (''enabled'', VBool True),
              (''dmPolicy'', VStr (or_else (env ''TELEGRAM_DM_POLICY'') ''pairing''))]
             @ (if truthy_str (env ''TELEGRAM_DM_ALLOW_FROM'')
                then [(''allowFrom'',
                       VArr (map VStr (split_on (CHR '','') (the (env ''TELEGRAM_DM_ALLOW_FROM'')))) [])]
                else if or_else (env ''TELEGRAM_DM_POLICY'') ''pairing'' = ''open''
                then [(''allowFrom'', VArr [VStr ''*''] [])]
                else [])))"
    and dv: "truthy_str (env ''DISCORD_BOT_TOKEN'') \<longrightarrow>
          map_of chal' ''discord'' = Some (VObj
            [(''token'', VStr (the (env ''DISCORD_BOT_TOKEN''))),
             (''enabled'', VBool True),
             (''dm'', VObj ([(''policy'', VStr (or_else (env ''DISCORD_DM_POLICY'') ''pairing''))]
                @ (if or_else (env ''DISCORD_DM_POLICY'') ''pairing'' = ''open''
                   then [(''allowFrom'', VArr [VStr ''*''] [])] else [])))])"
    and sv: "truthy_str (env ''SLACK_BOT_TOKEN'') \<and> truthy_str (env ''SLACK_APP_TOKEN'') \<longrightarrow>
          map_of chal' ''slack'' = Some (VObj
            [(''botToken'', VStr (the (env ''SLACK_BOT_TOKEN''))),
             (''appToken'', VStr (the (env ''SLACK_APP_TOKEN''))),
             (''enabled'', VBool True)])"
    by blast
  have "kres ?sts ''channels'' c0 = Inr (Some (VObj chal'))"
    by (simp add: kres_channels [OF shape] start rc)
  with kr have m: "map_of al1 ''channels'' = Some (VObj chal')" by (simp add: c0_def)
  have at: "json_at d' [''channels'', k] = map_option to_json (map_of chal' k)" for k
    by (simp add: d' r to_json_VObj_nonfun [OF nf1] to_json_VObj_nonfun [OF nfc']
          map_of_map_prod m split: option.splits)
  show ?thesis
    unfolding at using tv dv sv
    by (auto simp: to_json.simps(6) comp_def)
qed

theorem channels_replaced_wholesale_witness:
  "patch_config patchEnv (Some staleConfig) = Inr patchedStaleConfig
   \<and> json_at patchedStaleConfig [''channels'', ''telegram''] = Some (JObj
        [(''botToken'', JStr ''tg-token''), (''enabled'', JBool True),
         (''dmPolicy'', JStr ''open''), (''allowFrom'', JArr [JStr ''*''])])
   \<and> json_at patchedStaleConfig [''channels'', ''discord''] = Some (JObj
        [(''token'', JStr ''dc-token''), (''enabled'', JBool True),
         (''dm'', JObj [(''policy'', JStr ''pairing'')])])
   \<and> json_at patchedStaleConfig [''channels'', ''slack''] = Some (JObj
        [(''botToken'', JStr ''xoxb-1''), (''appToken'', JStr ''xapp-1''),
         (''enabled'', JBool True)])"
  using channels_replaced_wholesale [of patchEnv
      "[(''channels'', JObj
        [(''telegram'', JObj [(''botToken'', JStr ''old''), (''legacyField'', JBool True)]),
         (''matrix'', JObj [(''enabled'', JBool False)])]),
      (''note'', JStr ''hand-edited'')]" patchedStaleConfig]
    patch_staleConfig
  by (simp add: staleConfig_def patchEnv_def truthy_str_def or_else_def)

subsection \<open>The legacy auth-store migration\<close>






lemma trim_Nil [simp]: "trim [] = []"
  by (simp add: trim_def)














end
